theory Spec2Isabelle
  imports Complex_Main "HOL-Library.Sublist"
begin

section \<open>Strings and numbers of the JavaScript runtime\<close>

text \<open>
  A string is the list of its UTF-16 code units, each a natural number below 65536;
  \<open>js\<close> turns an ASCII literal into such a list. A finite number is the rational number
  it denotes.
\<close>

type_synonym jsstring = "nat list"

definition js :: "string \<Rightarrow> jsstring" where
  "js s = map of_char s"

text \<open>
  \<open>String.prototype.trim\<close> strips, at both ends, the white space and the line
  terminators of ECMAScript: TAB, LF, VT, FF, CR, SPACE, NO-BREAK SPACE, the other space
  separators of Unicode (U+1680, U+2000 to U+200A, U+202F, U+205F, U+3000), the line and
  paragraph separators U+2028 and U+2029, and U+FEFF. Each is one code unit.
\<close>

definition isWhiteSpace :: "nat \<Rightarrow> bool" where
  "isWhiteSpace c =
     (c \<in> set [0x0009, 0x000A, 0x000B, 0x000C, 0x000D, 0x0020, 0x00A0, 0x1680,
                0x2000, 0x2001, 0x2002, 0x2003, 0x2004, 0x2005, 0x2006, 0x2007, 0x2008,
                0x2009, 0x200A, 0x2028, 0x2029, 0x202F, 0x205F, 0x3000, 0xFEFF])"

definition trim :: "jsstring \<Rightarrow> jsstring" where
  "trim s = rev (dropWhile isWhiteSpace (rev (dropWhile isWhiteSpace s)))"

text \<open>\<open>s.includes(sub)\<close>: \<open>sub\<close> occurs in \<open>s\<close> at some position.\<close>

fun js_includes :: "jsstring \<Rightarrow> jsstring \<Rightarrow> bool" where
  "js_includes [] sub = (sub = [])"
| "js_includes (c # cs) sub = (prefix sub (c # cs) \<or> js_includes cs sub)"

text \<open>\<open>typeof v === 'string' ? v.trim() : ''\<close> for a field that may be absent.\<close>

definition trimmed_field :: "jsstring option \<Rightarrow> jsstring" where
  "trimmed_field v = (case v of Some s \<Rightarrow> trim s | None \<Rightarrow> [])"

text \<open>\<open>s.replace(/\/+$/, '')\<close>: the string without its trailing slashes.\<close>

definition strip_trailing_slashes :: "jsstring \<Rightarrow> jsstring" where
  "strip_trailing_slashes s = rev (dropWhile (\<lambda>c. c = 0x2F) (rev s))"

section \<open>The persistent store (\<open>webshell-gateway/db.ts\<close>)\<close>

text \<open>
  Row types follow the TypeScript types of \<open>db.ts\<close>. A \<open>Date\<close> is its value in
  milliseconds, a nullable column is an \<open>option\<close>, a \<open>number\<close> column holds the number
  it was given. A table is the list of its rows in insertion order. The \<open>WHERE id = ?\<close>
  of the SQL statements is modelled as equality of strings. The \<open>users\<close> table is left
  out: no operation modelled here reads or writes it.
\<close>

type_synonym date = int

datatype session_status = Connected | Disconnected | Error

record WebshellTargetRow =
  t_id :: jsstring
  t_host :: jsstring
  t_port :: rat
  t_username :: jsstring
  t_password :: "jsstring option"
  t_privateKey :: "jsstring option"
  t_name :: "jsstring option"

record SessionHistoryRow =
  sh_id :: jsstring
  sh_targetId :: jsstring
  sh_targetName :: "jsstring option"
  sh_host :: jsstring
  sh_port :: rat
  sh_username :: jsstring
  sh_startTime :: date
  sh_endTime :: "date option"
  sh_status :: session_status
  sh_reason :: "jsstring option"

record AuthSessionRow =
  as_token :: jsstring
  as_username :: jsstring
  as_provider :: jsstring
  as_createdAt :: date
  as_expiresAt :: date

record WebshellDb =
  targets :: "WebshellTargetRow list"
  sessions :: "SessionHistoryRow list"
  auth_sessions :: "AuthSessionRow list"

text \<open>An \<open>INSERT\<close> whose primary key is already in the table is rejected by the store.\<close>

datatype db_error = DuplicateKey

definition getTarget :: "WebshellDb \<Rightarrow> jsstring \<Rightarrow> WebshellTargetRow option" where
  "getTarget db ident = List.find (\<lambda>r. t_id r = ident) (targets db)"

definition createTarget :: "WebshellDb \<Rightarrow> WebshellTargetRow \<Rightarrow> db_error + WebshellDb" where
  "createTarget db target =
     (if t_id target \<in> set (map t_id (targets db)) then Inl DuplicateKey
      else Inr (db\<lparr>targets := targets db @ [target]\<rparr>))"

definition updateTarget :: "WebshellDb \<Rightarrow> WebshellTargetRow \<Rightarrow> WebshellDb" where
  "updateTarget db target =
     db\<lparr>targets := map (\<lambda>r. if t_id r = t_id target
                              then r\<lparr>t_host := t_host target, t_port := t_port target,
                                    t_username := t_username target,
                                    t_password := t_password target,
                                    t_privateKey := t_privateKey target,
                                    t_name := t_name target\<rparr>
                              else r) (targets db)\<rparr>"

definition deleteTarget :: "WebshellDb \<Rightarrow> jsstring \<Rightarrow> WebshellDb" where
  "deleteTarget db ident = db\<lparr>targets := filter (\<lambda>r. t_id r \<noteq> ident) (targets db)\<rparr>"

definition createSession :: "WebshellDb \<Rightarrow> SessionHistoryRow \<Rightarrow> db_error + WebshellDb" where
  "createSession db session =
     (if sh_id session \<in> set (map sh_id (sessions db)) then Inl DuplicateKey
      else Inr (db\<lparr>sessions := sessions db @ [session]\<rparr>))"

definition updateSessionEndTime ::
  "WebshellDb \<Rightarrow> jsstring \<Rightarrow> date \<Rightarrow> session_status \<Rightarrow> WebshellDb" where
  "updateSessionEndTime db ident endTime status =
     db\<lparr>sessions := map (\<lambda>r. if sh_id r = ident
                               then r\<lparr>sh_endTime := Some endTime, sh_status := status\<rparr>
                               else r) (sessions db)\<rparr>"

definition createAuthSession :: "WebshellDb \<Rightarrow> AuthSessionRow \<Rightarrow> db_error + WebshellDb" where
  "createAuthSession db session =
     (if as_token session \<in> set (map as_token (auth_sessions db)) then Inl DuplicateKey
      else Inr (db\<lparr>auth_sessions := auth_sessions db @ [session]\<rparr>))"

definition deleteAuthSession :: "WebshellDb \<Rightarrow> jsstring \<Rightarrow> WebshellDb" where
  "deleteAuthSession db token =
     db\<lparr>auth_sessions := filter (\<lambda>r. as_token r \<noteq> token) (auth_sessions db)\<rparr>"

text \<open>
  \<open>getAuthSession\<close> reads the clock (\<open>Date.now()\<close>), here the argument \<open>now\<close>, and
  returns the row it answers with together with the store it leaves behind.
\<close>

definition getAuthSession ::
  "WebshellDb \<Rightarrow> jsstring \<Rightarrow> date \<Rightarrow> AuthSessionRow option \<times> WebshellDb" where
  "getAuthSession db token now =
     (case List.find (\<lambda>r. as_token r = token) (auth_sessions db) of
        None \<Rightarrow> (None, db)
      | Some session \<Rightarrow>
          if as_expiresAt session \<le> now then (None, deleteAuthSession db token)
          else (Some session, db))"

definition pruneExpiredAuthSessions :: "WebshellDb \<Rightarrow> date \<Rightarrow> WebshellDb" where
  "pruneExpiredAuthSessions db now =
     db\<lparr>auth_sessions := filter (\<lambda>r. \<not> as_expiresAt r \<le> now) (auth_sessions db)\<rparr>"

text \<open>The row of the audit table a handle names, as a reader of the table sees it.\<close>

definition auditRecord :: "WebshellDb \<Rightarrow> jsstring \<Rightarrow> SessionHistoryRow option" where
  "auditRecord db ident = List.find (\<lambda>r. sh_id r = ident) (sessions db)"

text \<open>A sequence of \<open>updateSessionEndTime\<close> calls for one handle, in the order they are made.\<close>

definition finalize_calls ::
  "WebshellDb \<Rightarrow> jsstring \<Rightarrow> (date \<times> session_status) list \<Rightarrow> WebshellDb" where
  "finalize_calls db ident calls =
     foldl (\<lambda>d c. updateSessionEndTime d ident (fst c) (snd c)) db calls"

section \<open>The gateway (\<open>webshell-gateway/index.ts\<close>)\<close>

text \<open>
  The gateway is a state machine: the store, the in-memory table \<open>sessions\<close> and the
  connections accepted so far. A route handler and an event handler run as one step; the
  \<open>connection\<close> handler of the WebSocket server runs in two steps, since it awaits the
  store before it registers its handlers. The statements sent to the store take effect in
  the order they are issued. The only failure of the store that is modelled is the insert
  of a key that exists; a route answers it with status 500, and the bridge handlers send
  updates only.
\<close>

subsection \<open>Requests and responses\<close>

text \<open>
  A number of a request body is finite or not (\<open>NaN\<close>, an infinity). The field
  \<open>body_port\<close> is the source's \<open>portValue\<close>: the number sent, or \<open>Number(s)\<close> of the
  string sent, or absent. A string field is absent when the body has no string there.
\<close>

datatype js_number = Finite rat | NonFinite

record target_body =
  body_id :: "jsstring option"
  body_host :: "jsstring option"
  body_username :: "jsstring option"
  body_name :: "jsstring option"
  body_port :: "js_number option"
  body_password :: "jsstring option"
  body_privateKey :: "jsstring option"

record session_body =
  body_targetId :: "jsstring option"
  body_reason :: "jsstring option"

text \<open>
  The answers of the HTTP handlers: the \<open>201\<close> and \<open>200\<close> bodies of the target routes
  (id, host, port, username, name), \<open>204\<close>, the session URL, and an error status.
\<close>

datatype api_response =
    TargetCreated jsstring jsstring rat jsstring jsstring
  | TargetUpdated jsstring jsstring rat jsstring jsstring
  | NoContent
  | SessionCreated jsstring
  | ErrorResponse nat

subsection \<open>State\<close>

record SSHSessionInfo =
  si_id :: jsstring
  si_targetId :: jsstring
  si_reason :: jsstring
  si_createdAt :: int

text \<open>
  The caller-facing transport is the WebSocket of the \<open>ws\<close> library: its ready state and
  the messages handed to \<open>send\<close> while it was open. \<open>close()\<close> starts the closing
  handshake; \<open>send\<close> on a socket that is not open transmits nothing.
\<close>

datatype readyState = CONNECTING | OPEN | CLOSING | CLOSED

datatype ws_payload = ConnectFailedNotice | ShellFailedNotice | Text jsstring

record WebSocket =
  ws_readyState :: readyState
  ws_sent :: "ws_payload list"

definition socket_close :: "WebSocket \<Rightarrow> WebSocket" where
  "socket_close s = (if ws_readyState s = CLOSED then s else s\<lparr>ws_readyState := CLOSING\<rparr>)"

definition socket_send :: "WebSocket \<Rightarrow> ws_payload \<Rightarrow> WebSocket" where
  "socket_send s m = (if ws_readyState s = OPEN then s\<lparr>ws_sent := ws_sent s @ [m]\<rparr> else s)"

text \<open>
  One attach attempt that got past the lookups: the session, the target the remote-login
  client was told to connect to, the socket, whether \<open>ssh.end()\<close> has been called, whether
  the shell stream is open (its handlers and the socket's message handler are registered),
  and what was written to the stream.
\<close>

record bridge =
  br_info :: SSHSessionInfo
  br_target :: WebshellTargetRow
  br_socket :: WebSocket
  br_ssh_ended :: bool
  br_stream :: bool
  br_written :: "jsstring list"

text \<open>
  A connection is turned away (its socket closed by the handler, no handler registered), or
  its handler awaits \<open>loadTargetOrThrow\<close> for the session found (no handler registered
  yet, the socket in the state it has reached meanwhile), or it is attached.
\<close>

datatype connection = Rejected WebSocket | Awaiting SSHSessionInfo WebSocket | Attached bridge

record gateway =
  g_db :: WebshellDb
  g_sessions :: "jsstring \<rightharpoonup> SSHSessionInfo"
  g_connections :: "connection list"
  g_publicBaseUrl :: jsstring

subsection \<open>Target routes\<close>

definition finite_port :: "js_number option \<Rightarrow> rat option" where
  "finite_port portValue = (case portValue of Some (Finite n) \<Rightarrow> Some n | _ \<Rightarrow> None)"

definition or_else :: "jsstring \<Rightarrow> jsstring \<Rightarrow> jsstring" where
  "or_else a b = (if a = [] then b else a)"

definition or_null :: "jsstring \<Rightarrow> jsstring option" where
  "or_null a = (if a = [] then None else Some a)"

text \<open>The \<open>row\<close> the handler of \<open>POST /api/targets\<close> builds from a body.\<close>

definition target_row :: "target_body \<Rightarrow> WebshellTargetRow" where
  "target_row body =
     \<lparr>t_id = trimmed_field (body_id body),
      t_host = trimmed_field (body_host body),
      t_port = (case finite_port (body_port body) of Some n \<Rightarrow> n | None \<Rightarrow> 22),
      t_username = trimmed_field (body_username body),
      t_password = body_password body,
      t_privateKey = body_privateKey body,
      t_name = or_null (trimmed_field (body_name body))\<rparr>"

definition post_targets :: "gateway \<Rightarrow> target_body \<Rightarrow> api_response \<times> gateway" where
  "post_targets g body =
     (let ident = trimmed_field (body_id body);
          host = trimmed_field (body_host body);
          username = trimmed_field (body_username body);
          name = trimmed_field (body_name body)
      in if ident = [] \<or> host = [] \<or> username = [] then (ErrorResponse 400, g)
         else
           let row = target_row body
           in case getTarget (g_db g) ident of
                Some existing \<Rightarrow>
                  (TargetCreated ident host (t_port row) username (or_else name ident),
                   g\<lparr>g_db := updateTarget (g_db g) row\<rparr>)
              | None \<Rightarrow>
                  (case createTarget (g_db g) row of
                     Inl e \<Rightarrow> (ErrorResponse 500, g)
                   | Inr db' \<Rightarrow>
                       (TargetCreated ident host (t_port row) username (or_else name ident),
                        g\<lparr>g_db := db'\<rparr>)))"

definition put_targets :: "gateway \<Rightarrow> jsstring \<Rightarrow> target_body \<Rightarrow> api_response \<times> gateway" where
  "put_targets g param body =
     (let ident = trim param
      in if ident = [] then (ErrorResponse 400, g)
         else
           let host = trimmed_field (body_host body);
               username = trimmed_field (body_username body);
               name = trimmed_field (body_name body)
           in case getTarget (g_db g) ident of
                None \<Rightarrow> (ErrorResponse 404, g)
              | Some existing \<Rightarrow>
                  let updated =
                        \<lparr>t_id = ident,
                         t_host = or_else host (t_host existing),
                         t_port = (case finite_port (body_port body) of
                                     Some n \<Rightarrow> n | None \<Rightarrow> t_port existing),
                         t_username = or_else username (t_username existing),
                         t_password = (case body_password body of
                                         Some p \<Rightarrow> Some p | None \<Rightarrow> t_password existing),
                         t_privateKey = (case body_privateKey body of
                                           Some k \<Rightarrow> Some k | None \<Rightarrow> t_privateKey existing),
                         t_name = (if name \<noteq> [] then Some name else t_name existing)\<rparr>
                  in (TargetUpdated ident (t_host updated) (t_port updated) (t_username updated)
                        (case t_name updated of
                           None \<Rightarrow> ident | Some n \<Rightarrow> or_else n ident),
                      g\<lparr>g_db := updateTarget (g_db g) updated\<rparr>))"

definition delete_targets :: "gateway \<Rightarrow> jsstring \<Rightarrow> api_response \<times> gateway" where
  "delete_targets g param =
     (let ident = trim param
      in if ident = [] then (ErrorResponse 400, g)
         else (NoContent, g\<lparr>g_db := deleteTarget (g_db g) ident\<rparr>))"

subsection \<open>Session creation\<close>

definition createSessionHistoryRow ::
  "jsstring \<Rightarrow> WebshellTargetRow \<Rightarrow> jsstring \<Rightarrow> date \<Rightarrow> SessionHistoryRow" where
  "createSessionHistoryRow ident target reason now =
     \<lparr>sh_id = ident, sh_targetId = t_id target, sh_targetName = t_name target,
      sh_host = t_host target, sh_port = t_port target, sh_username = t_username target,
      sh_startTime = now, sh_endTime = None, sh_status = Connected,
      sh_reason = or_null reason\<rparr>"

text \<open>
  \<open>POST /api/session\<close>. The handle is what \<open>randomUUID()\<close> returned, \<open>createdAt\<close> what
  \<open>Date.now()\<close> returned and \<open>now\<close> the \<open>new Date()\<close> of \<open>createSessionHistoryRow\<close>.
  A target that is not found and an insert the store rejects end in the \<open>catch\<close>: status 500.
  The handler opens no connection: \<open>g_connections\<close> is not touched.
\<close>

definition post_session ::
  "gateway \<Rightarrow> session_body \<Rightarrow> jsstring \<Rightarrow> int \<Rightarrow> date \<Rightarrow> api_response \<times> gateway" where
  "post_session g body uuid createdAt now =
     (let targetId = trimmed_field (body_targetId body);
          reason = trimmed_field (body_reason body)
      in if targetId = [] then (ErrorResponse 400, g)
         else case getTarget (g_db g) targetId of
                None \<Rightarrow> (ErrorResponse 500, g)
              | Some target \<Rightarrow>
                  let sessionInfo = \<lparr>si_id = uuid, si_targetId = t_id target,
                                      si_reason = reason, si_createdAt = createdAt\<rparr>;
                      g1 = g\<lparr>g_sessions := (g_sessions g)(uuid \<mapsto> sessionInfo)\<rparr>;
                      history = createSessionHistoryRow uuid target reason now
                  in case createSession (g_db g1) history of
                       Inl e \<Rightarrow> (ErrorResponse 500, g1)
                     | Inr db' \<Rightarrow>
                         (SessionCreated
                            (strip_trailing_slashes (g_publicBaseUrl g1) @ js ''/session/'' @ uuid),
                          g1\<lparr>g_db := db'\<rparr>))"

subsection \<open>Attaching and bridging\<close>

text \<open>
  The \<open>connection\<close> handler of the WebSocket server, for a socket that has just opened and
  the \<open>sessionId\<close> parameter of its URL, up to its \<open>await\<close>. Without a session it
  closes the socket and returns; with one it calls \<open>loadTargetOrThrow\<close> and is suspended.
\<close>

definition sessionId_param :: "jsstring option \<Rightarrow> jsstring" where
  "sessionId_param param = (case param of Some s \<Rightarrow> s | None \<Rightarrow> [])"

definition ws_connection :: "gateway \<Rightarrow> jsstring option \<Rightarrow> gateway" where
  "ws_connection g param =
     (let socket = \<lparr>ws_readyState = OPEN, ws_sent = []\<rparr>;
          sessionId = sessionId_param param
      in case g_sessions g sessionId of
           None \<Rightarrow> g\<lparr>g_connections := g_connections g @ [Rejected (socket_close socket)]\<rparr>
         | Some info \<Rightarrow> g\<lparr>g_connections := g_connections g @ [Awaiting info socket]\<rparr>)"

text \<open>
  The rest of the handler, when the store has answered. A target that is not found makes
  \<open>loadTargetOrThrow\<close> throw; \<open>ssh.connect\<close> of the remote-login library may throw
  as well (it does for a configuration it refuses, such as a private key it cannot parse),
  which is taken from the environment. Both end in the \<open>catch\<close>, which closes the socket
  if it is open; the close handler of the socket, registered after \<open>ssh.connect\<close>, is
  then not registered. Otherwise the connection is attached, with the socket as it is by
  then.
\<close>

definition close_if_open :: "WebSocket \<Rightarrow> WebSocket" where
  "close_if_open s = (if ws_readyState s = OPEN then socket_close s else s)"

datatype connect_outcome = ConnectStarted | ConnectThrew

definition target_loaded :: "gateway \<Rightarrow> nat \<Rightarrow> connect_outcome \<Rightarrow> gateway" where
  "target_loaded g i outcome =
     (if i < length (g_connections g)
      then (case g_connections g ! i of
              Awaiting info socket \<Rightarrow>
                (case getTarget (g_db g) (si_targetId info) of
                   None \<Rightarrow>
                     g\<lparr>g_connections := (g_connections g)[i := Rejected (close_if_open socket)]\<rparr>
                 | Some target \<Rightarrow>
                     (case outcome of
                        ConnectThrew \<Rightarrow>
                          g\<lparr>g_connections :=
                               (g_connections g)[i := Rejected (close_if_open socket)]\<rparr>
                      | ConnectStarted \<Rightarrow>
                          g\<lparr>g_connections := (g_connections g)
                               [i := Attached \<lparr>br_info = info, br_target = target,
                                                br_socket = socket, br_ssh_ended = False,
                                                br_stream = False, br_written = []\<rparr>]\<rparr>))
            | _ \<Rightarrow> g)
      else g)"

text \<open>
  What reaches a bridge: the remote-login client is ready and its shell opens or fails to
  open, the client reports an error or closes, the shell stream delivers data or closes, the
  socket delivers a message or closes. The \<open>ws\<close> library emits \<open>close\<close> once the socket
  has reached \<open>CLOSED\<close>, also when the closing was started by \<open>socket.close()\<close> here.
  It emits \<open>close\<close> once, to the handlers registered at that moment. The handlers of
  the stream and the message handler of the socket exist once the shell has opened; the
  close handler of the socket exists once the connection is attached.
\<close>

datatype ws_message = BufferMessage jsstring | StringMessage jsstring | OtherMessage

datatype bridge_event =
    ShellOpened
  | ShellFailed
  | SshError
  | SshClose
  | StreamData jsstring
  | StreamClose
  | SocketMessage ws_message
  | SocketClose

definition on_shell_failed :: "WebshellDb \<Rightarrow> bridge \<Rightarrow> date \<Rightarrow> WebshellDb \<times> bridge" where
  "on_shell_failed db b now =
     (updateSessionEndTime db (si_id (br_info b)) now Error,
      b\<lparr>br_socket := socket_close (socket_send (br_socket b) ShellFailedNotice),
        br_ssh_ended := True\<rparr>)"

definition on_shell_opened :: "bridge \<Rightarrow> bridge" where
  "on_shell_opened b = b\<lparr>br_stream := True\<rparr>"

definition on_ssh_error :: "WebshellDb \<Rightarrow> bridge \<Rightarrow> date \<Rightarrow> WebshellDb \<times> bridge" where
  "on_ssh_error db b now =
     (updateSessionEndTime db (si_id (br_info b)) now Error,
      b\<lparr>br_socket := (if ws_readyState (br_socket b) = OPEN
                       then socket_close (socket_send (br_socket b) ConnectFailedNotice)
                       else br_socket b),
        br_ssh_ended := True\<rparr>)"

definition on_ssh_close :: "bridge \<Rightarrow> bridge" where
  "on_ssh_close b = b\<lparr>br_socket := close_if_open (br_socket b)\<rparr>"

definition on_stream_data :: "bridge \<Rightarrow> jsstring \<Rightarrow> bridge" where
  "on_stream_data b data =
     (if br_stream b \<and> ws_readyState (br_socket b) = OPEN
      then b\<lparr>br_socket := socket_send (br_socket b) (Text data)\<rparr> else b)"

definition on_stream_close :: "bridge \<Rightarrow> bridge" where
  "on_stream_close b =
     (if br_stream b then b\<lparr>br_socket := close_if_open (br_socket b)\<rparr> else b)"

definition on_socket_message :: "bridge \<Rightarrow> ws_message \<Rightarrow> bridge" where
  "on_socket_message b message =
     (if br_stream b
      then (case message of
              BufferMessage m \<Rightarrow> b\<lparr>br_written := br_written b @ [m]\<rparr>
            | StringMessage m \<Rightarrow> b\<lparr>br_written := br_written b @ [m]\<rparr>
            | OtherMessage \<Rightarrow> b)
      else b)"

definition on_socket_close :: "WebshellDb \<Rightarrow> bridge \<Rightarrow> date \<Rightarrow> WebshellDb \<times> bridge" where
  "on_socket_close db b now =
     (updateSessionEndTime db (si_id (br_info b)) now Disconnected,
      b\<lparr>br_socket := (br_socket b)\<lparr>ws_readyState := CLOSED\<rparr>, br_ssh_ended := True\<rparr>)"

fun bridge_step :: "WebshellDb \<Rightarrow> bridge \<Rightarrow> bridge_event \<Rightarrow> date \<Rightarrow> WebshellDb \<times> bridge" where
  "bridge_step db b ShellOpened now = (db, on_shell_opened b)"
| "bridge_step db b ShellFailed now = on_shell_failed db b now"
| "bridge_step db b SshError now = on_ssh_error db b now"
| "bridge_step db b SshClose now = (db, on_ssh_close b)"
| "bridge_step db b (StreamData d) now = (db, on_stream_data b d)"
| "bridge_step db b StreamClose now = (db, on_stream_close b)"
| "bridge_step db b (SocketMessage m) now = (db, on_socket_message b m)"
| "bridge_step db b SocketClose now = on_socket_close db b now"

text \<open>
  An event for the \<open>i\<close>-th connection. A rejected connection has no handler to run. While
  the connection handler awaits the store, a socket that closes reaches \<open>CLOSED\<close> and its
  \<open>close\<close> event finds no handler; nothing else can reach the connection. A socket that
  is \<open>CLOSED\<close> has emitted its \<open>close\<close> event and emits none again.
\<close>

definition connection_event :: "gateway \<Rightarrow> nat \<Rightarrow> bridge_event \<Rightarrow> date \<Rightarrow> gateway" where
  "connection_event g i ev now =
     (if i < length (g_connections g)
      then (case g_connections g ! i of
              Rejected s \<Rightarrow> g
            | Awaiting info s \<Rightarrow>
                (case ev of
                   SocketClose \<Rightarrow>
                     g\<lparr>g_connections :=
                          (g_connections g)[i := Awaiting info (s\<lparr>ws_readyState := CLOSED\<rparr>)]\<rparr>
                 | _ \<Rightarrow> g)
            | Attached b \<Rightarrow>
                if ev = SocketClose \<and> ws_readyState (br_socket b) = CLOSED then g
                else (case bridge_step (g_db g) b ev now of
                        (db', b') \<Rightarrow>
                          g\<lparr>g_db := db',
                            g_connections := (g_connections g)[i := Attached b']\<rparr>))
      else g)"

subsection \<open>Runs of the gateway\<close>

datatype gateway_event =
    PostTargets target_body
  | PutTargets jsstring target_body
  | DeleteTargets jsstring
  | PostSession session_body jsstring int date
  | WsConnection "jsstring option"
  | TargetLoaded nat connect_outcome
  | ConnectionEvent nat bridge_event date

fun gateway_step :: "gateway \<Rightarrow> gateway_event \<Rightarrow> gateway" where
  "gateway_step g (PostTargets body) = snd (post_targets g body)"
| "gateway_step g (PutTargets param body) = snd (put_targets g param body)"
| "gateway_step g (DeleteTargets param) = snd (delete_targets g param)"
| "gateway_step g (PostSession body uuid createdAt now) = snd (post_session g body uuid createdAt now)"
| "gateway_step g (WsConnection param) = ws_connection g param"
| "gateway_step g (TargetLoaded i outcome) = target_loaded g i outcome"
| "gateway_step g (ConnectionEvent i ev now) = connection_event g i ev now"

definition run :: "gateway \<Rightarrow> gateway_event list \<Rightarrow> gateway" where
  "run g evs = foldl gateway_step g evs"

text \<open>The gateway when it starts: the store as found, no live session, no connection.\<close>

definition startWebshellGateway :: "WebshellDb \<Rightarrow> jsstring \<Rightarrow> gateway" where
  "startWebshellGateway db baseUrl =
     \<lparr>g_db = db, g_sessions = Map.empty, g_connections = [], g_publicBaseUrl = baseUrl\<rparr>"

text \<open>The invariant of the audit table: an end time exactly on the rows that are not connected.\<close>

definition audit_invariant :: "WebshellDb \<Rightarrow> bool" where
  "audit_invariant db =
     (\<forall>r \<in> set (sessions db). (sh_endTime r \<noteq> None) = (sh_status r \<noteq> Connected))"

section \<open>The tools of the MCP server (\<open>index.ts\<close>)\<close>

text \<open>
  A target as \<open>fetchWebshellTargets\<close> returns it. The two calls to the gateway are taken
  as they answer: \<open>fetchWebshellTargets\<close> is the outcome of the call, an error or the list,
  and \<open>createWebshellSession\<close> maps a target id and a reason to an error or the session URL.
  \<open>String.prototype.toLowerCase\<close> follows the case tables of Unicode, which are not written
  out here: the definitions take the function as their first argument \<open>toLowerCase\<close>.
\<close>

record SSHWebshellTarget =
  wt_id :: jsstring
  wt_name :: "jsstring option"
  wt_host :: "jsstring option"
  wt_port :: "rat option"
  wt_username :: "jsstring option"

text \<open>
  The errors the tools throw, by message: the hint is blank; there is no target; no target
  matches the hint (with the list of all targets); several targets match the hint (with the
  list of the candidates); no target has the id asked for (with the id and the list of all
  targets); the id is missing and several targets exist (with their list); a call to the
  gateway failed.
\<close>

datatype mcp_error =
    HintEmpty
  | NoTargets
  | HintNotMatched jsstring
  | HintAmbiguous jsstring
  | TargetNotFound jsstring jsstring
  | TargetIdRequired jsstring
  | GatewayError jsstring

text \<open>
  What a tool answers: the session URL, for \<open>open_ssh_terminal\<close> together with the
  label of the target chosen.
\<close>

datatype tool_result = TerminalCreated jsstring | TerminalOpened jsstring jsstring

text \<open>\<open>t.name && t.name !== t.id ? `${t.name} (${t.id})` : t.id\<close>\<close>

definition display_label :: "SSHWebshellTarget \<Rightarrow> jsstring" where
  "display_label t =
     (case wt_name t of
        None \<Rightarrow> wt_id t
      | Some n \<Rightarrow> if n \<noteq> [] \<and> n \<noteq> wt_id t then n @ js '' ('' @ wt_id t @ js '')'' else wt_id t)"

fun join :: "jsstring \<Rightarrow> jsstring list \<Rightarrow> jsstring" where
  "join sep [] = []"
| "join sep [x] = x"
| "join sep (x # y # ys) = x @ sep @ join sep (y # ys)"

definition target_names :: "SSHWebshellTarget list \<Rightarrow> jsstring" where
  "target_names ts = join (js '', '') (map display_label ts)"

definition safe_reason :: "jsstring option \<Rightarrow> jsstring" where
  "safe_reason reason = (case reason of Some r \<Rightarrow> r | None \<Rightarrow> [])"

subsection \<open>\<open>create_ssh_web_terminal\<close>\<close>

text \<open>
  The value the handler leaves in \<open>resolvedTargetId\<close>, or the error it throws. The test
  \<open>typeof targetId === 'string' && targetId.trim()\<close> holds when the trimmed id is not empty.
\<close>

definition resolvedTargetId ::
  "SSHWebshellTarget list \<Rightarrow> jsstring option \<Rightarrow> mcp_error + jsstring" where
  "resolvedTargetId available targetId =
     (let tid = trimmed_field targetId
      in if tid \<noteq> []
         then
           case List.find (\<lambda>t. wt_id t = tid \<or> wt_name t = Some tid) available of
             None \<Rightarrow> Inl (TargetNotFound tid (target_names available))
           | Some found \<Rightarrow> Inr (wt_id found)
         else
           case available of
             [t] \<Rightarrow> Inr (wt_id t)
           | [] \<Rightarrow> Inl NoTargets
           | _ \<Rightarrow> Inl (TargetIdRequired (target_names available)))"

definition create_ssh_web_terminal ::
  "(mcp_error + SSHWebshellTarget list) \<Rightarrow> (jsstring \<Rightarrow> jsstring \<Rightarrow> mcp_error + jsstring) \<Rightarrow>
   jsstring option \<Rightarrow> jsstring option \<Rightarrow> mcp_error + tool_result" where
  "create_ssh_web_terminal fetchWebshellTargets createWebshellSession targetId reason =
     (case fetchWebshellTargets of
        Inl e \<Rightarrow> Inl e
      | Inr available \<Rightarrow>
          (case resolvedTargetId available targetId of
             Inl e \<Rightarrow> Inl e
           | Inr rid \<Rightarrow>
               (case createWebshellSession rid (safe_reason reason) of
                  Inl e \<Rightarrow> Inl e
                | Inr sessionUrl \<Rightarrow> Inr (TerminalCreated sessionUrl))))"

subsection \<open>\<open>open_ssh_terminal\<close>\<close>

text \<open>
  The two tests of the loop, for the lowered hint and a target; \<open>t.name || ''\<close> is the
  empty string for a target without name.
\<close>

definition isExact ::
  "(jsstring \<Rightarrow> jsstring) \<Rightarrow> jsstring \<Rightarrow> SSHWebshellTarget \<Rightarrow> bool" where
  "isExact toLowerCase lowered t =
     (let idLower = toLowerCase (wt_id t);
          nameLower = toLowerCase (case wt_name t of Some n \<Rightarrow> n | None \<Rightarrow> [])
      in idLower = lowered \<or> (nameLower \<noteq> [] \<and> nameLower = lowered))"

definition isPartial ::
  "(jsstring \<Rightarrow> jsstring) \<Rightarrow> jsstring \<Rightarrow> SSHWebshellTarget \<Rightarrow> bool" where
  "isPartial toLowerCase lowered t =
     (let idLower = toLowerCase (wt_id t);
          nameLower = toLowerCase (case wt_name t of Some n \<Rightarrow> n | None \<Rightarrow> [])
      in \<not> isExact toLowerCase lowered t \<and>
         (js_includes idLower lowered \<or> (nameLower \<noteq> [] \<and> js_includes nameLower lowered)))"

text \<open>One turn of the loop over the targets, on the pair of the two lists it fills.\<close>

definition match_target ::
  "(jsstring \<Rightarrow> jsstring) \<Rightarrow> jsstring \<Rightarrow>
   SSHWebshellTarget list \<times> SSHWebshellTarget list \<Rightarrow> SSHWebshellTarget \<Rightarrow>
   SSHWebshellTarget list \<times> SSHWebshellTarget list" where
  "match_target toLowerCase lowered acc t =
     (if isExact toLowerCase lowered t then (fst acc @ [t], snd acc)
      else if isPartial toLowerCase lowered t then (fst acc, snd acc @ [t])
      else acc)"

definition candidates ::
  "(jsstring \<Rightarrow> jsstring) \<Rightarrow> jsstring \<Rightarrow> SSHWebshellTarget list \<Rightarrow> SSHWebshellTarget list" where
  "candidates toLowerCase lowered list =
     (let matches = foldl (match_target toLowerCase lowered) ([], []) list
      in if fst matches \<noteq> [] then fst matches else snd matches)"

definition open_ssh_terminal ::
  "(jsstring \<Rightarrow> jsstring) \<Rightarrow> (mcp_error + SSHWebshellTarget list) \<Rightarrow>
   (jsstring \<Rightarrow> jsstring \<Rightarrow> mcp_error + jsstring) \<Rightarrow>
   jsstring \<Rightarrow> jsstring option \<Rightarrow> mcp_error + tool_result" where
  "open_ssh_terminal toLowerCase fetchWebshellTargets createWebshellSession targetHint reason =
     (let hint = trim targetHint
      in if hint = [] then Inl HintEmpty
         else case fetchWebshellTargets of
                Inl e \<Rightarrow> Inl e
              | Inr list \<Rightarrow>
                  if list = [] then Inl NoTargets
                  else case candidates toLowerCase (toLowerCase hint) list of
                         [target] \<Rightarrow>
                           (case createWebshellSession (wt_id target) (safe_reason reason) of
                              Inl e \<Rightarrow> Inl e
                            | Inr sessionUrl \<Rightarrow>
                                Inr (TerminalOpened (display_label target) sessionUrl))
                       | [] \<Rightarrow> Inl (HintNotMatched (target_names list))
                       | _ \<Rightarrow>
                           Inl (HintAmbiguous
                                  (target_names (candidates toLowerCase (toLowerCase hint) list))))"

subsection \<open>The resolution of a hint as the specification words it\<close>

text \<open>
  Comparison is case-insensitive, against the id and the display name of a target; a target
  has a display name when its name is present and not empty. The candidates are the exact
  matches if there is one, otherwise the targets whose id or display name contains the
  hint. One candidate gives that target's session, none fails with the list of all
  targets, several fail with the list of the candidates.
\<close>

definition spec_exact ::
  "(jsstring \<Rightarrow> jsstring) \<Rightarrow> jsstring \<Rightarrow> SSHWebshellTarget \<Rightarrow> bool" where
  "spec_exact toLowerCase hint t =
     (toLowerCase (wt_id t) = toLowerCase hint \<or>
      (case wt_name t of
         Some n \<Rightarrow> n \<noteq> [] \<and> toLowerCase n = toLowerCase hint
       | None \<Rightarrow> False))"

definition spec_contains ::
  "(jsstring \<Rightarrow> jsstring) \<Rightarrow> jsstring \<Rightarrow> SSHWebshellTarget \<Rightarrow> bool" where
  "spec_contains toLowerCase hint t =
     (sublist (toLowerCase hint) (toLowerCase (wt_id t)) \<or>
      (case wt_name t of
         Some n \<Rightarrow> n \<noteq> [] \<and> sublist (toLowerCase hint) (toLowerCase n)
       | None \<Rightarrow> False))"

definition spec_candidates ::
  "(jsstring \<Rightarrow> jsstring) \<Rightarrow> jsstring \<Rightarrow> SSHWebshellTarget list \<Rightarrow> SSHWebshellTarget list" where
  "spec_candidates toLowerCase hint ts =
     (if filter (spec_exact toLowerCase hint) ts \<noteq> [] then filter (spec_exact toLowerCase hint) ts
      else filter (spec_contains toLowerCase hint) ts)"

definition spec_resolve ::
  "(jsstring \<Rightarrow> jsstring) \<Rightarrow> (jsstring \<Rightarrow> jsstring \<Rightarrow> mcp_error + jsstring) \<Rightarrow>
   jsstring \<Rightarrow> jsstring option \<Rightarrow> SSHWebshellTarget list \<Rightarrow> mcp_error + tool_result" where
  "spec_resolve toLowerCase createWebshellSession hint reason ts =
     (case spec_candidates toLowerCase hint ts of
        [] \<Rightarrow> Inl (HintNotMatched (target_names ts))
      | [t] \<Rightarrow>
          (case createWebshellSession (wt_id t) (safe_reason reason) of
             Inl e \<Rightarrow> Inl e
           | Inr sessionUrl \<Rightarrow> Inr (TerminalOpened (display_label t) sessionUrl))
      | _ \<Rightarrow> Inl (HintAmbiguous (target_names (spec_candidates toLowerCase hint ts))))"

section \<open>A run used as example\<close>

text \<open>
  The scenario of the specification: target \<open>prod-a\<close> is created in an empty store, a
  session is created for it with reason \<open>incident-123\<close> and handle \<open>h1\<close>, a caller
  connects with that handle and, when the target has been loaded, is attached. Then either
  the remote-login client reports an error and the socket, which the handler closed, emits
  its \<open>close\<close> event; or the shell opens, 50 bytes arrive from the remote side and the
  caller's socket closes. In a third course the caller's socket closes while the connection
  handler still awaits the target.
\<close>

definition empty_db :: WebshellDb where
  "empty_db = \<lparr>targets = [], sessions = [], auth_sessions = []\<rparr>"

definition prod_a_body :: target_body where
  "prod_a_body =
     \<lparr>body_id = Some (js ''prod-a''), body_host = Some (js ''10.0.0.5''),
      body_username = Some (js ''root''), body_name = Some (js ''prod''),
      body_port = Some (Finite 22), body_password = None, body_privateKey = None\<rparr>"

definition prod_a_row :: WebshellTargetRow where
  "prod_a_row =
     \<lparr>t_id = js ''prod-a'', t_host = js ''10.0.0.5'', t_port = 22, t_username = js ''root'',
      t_password = None, t_privateKey = None, t_name = Some (js ''prod'')\<rparr>"

definition incident_body :: session_body where
  "incident_body =
     \<lparr>body_targetId = Some (js ''prod-a''), body_reason = Some (js ''incident-123'')\<rparr>"

definition h1_info :: SSHSessionInfo where
  "h1_info = \<lparr>si_id = js ''h1'', si_targetId = js ''prod-a'', si_reason = js ''incident-123'',
              si_createdAt = 1000\<rparr>"

definition h1_row :: SessionHistoryRow where
  "h1_row =
     \<lparr>sh_id = js ''h1'', sh_targetId = js ''prod-a'', sh_targetName = Some (js ''prod''),
      sh_host = js ''10.0.0.5'', sh_port = 22, sh_username = js ''root'', sh_startTime = 1001,
      sh_endTime = None, sh_status = Connected, sh_reason = Some (js ''incident-123'')\<rparr>"

definition scenario_target :: gateway where
  "scenario_target =
     run (startWebshellGateway empty_db (js ''http://localhost:9100/'')) [PostTargets prod_a_body]"

definition scenario_session :: gateway where
  "scenario_session =
     gateway_step scenario_target (PostSession incident_body (js ''h1'') 1000 1001)"

definition scenario_awaiting :: gateway where
  "scenario_awaiting = gateway_step scenario_session (WsConnection (Some (js ''h1'')))"

definition scenario_attached :: gateway where
  "scenario_attached = gateway_step scenario_awaiting (TargetLoaded 0 ConnectStarted)"

definition scenario_error :: gateway where
  "scenario_error = gateway_step scenario_attached (ConnectionEvent 0 SshError 2000)"

definition scenario_error_closed :: gateway where
  "scenario_error_closed = gateway_step scenario_error (ConnectionEvent 0 SocketClose 2001)"

definition fifty_bytes :: jsstring where
  "fifty_bytes = replicate 50 0x78"

definition scenario_data :: gateway where
  "scenario_data =
     run scenario_attached [ConnectionEvent 0 ShellOpened 2000,
                            ConnectionEvent 0 (StreamData fifty_bytes) 2001]"

definition scenario_data_closed :: gateway where
  "scenario_data_closed = gateway_step scenario_data (ConnectionEvent 0 SocketClose 3000)"

definition scenario_closed_early :: gateway where
  "scenario_closed_early =
     run scenario_awaiting [ConnectionEvent 0 SocketClose 1500, TargetLoaded 0 ConnectStarted]"

definition scenario_closed_early_again :: gateway where
  "scenario_closed_early_again =
     gateway_step scenario_closed_early (ConnectionEvent 0 SocketClose 1600)"

text \<open>
  In a fourth course the target is deleted before the caller connects: loading it fails, the
  handler closes the socket in its \<open>catch\<close>, and the socket emits its \<open>close\<close> event.
\<close>

definition scenario_target_gone :: gateway where
  "scenario_target_gone =
     run scenario_session [DeleteTargets (js ''prod-a''), WsConnection (Some (js ''h1'')),
                           TargetLoaded 0 ConnectStarted, ConnectionEvent 0 SocketClose 1500]"






text \<open>An audit table of two sessions.\<close>

definition h2_row :: SessionHistoryRow where
  "h2_row =
     \<lparr>sh_id = js ''h2'', sh_targetId = js ''prod-b'', sh_targetName = None,
      sh_host = js ''10.0.0.6'', sh_port = 22, sh_username = js ''root'', sh_startTime = 1500,
      sh_endTime = None, sh_status = Connected, sh_reason = None\<rparr>"

definition two_sessions_db :: WebshellDb where
  "two_sessions_db = \<lparr>targets = [], sessions = [h1_row, h2_row], auth_sessions = []\<rparr>"

section \<open>Targets used as examples\<close>

text \<open>
  The target list of the specification's scenario, a list of two targets, a gateway that
  answers every session request with a URL made from the target id, and a lowering function
  that agrees with \<open>toLowerCase\<close> on strings of ASCII characters, as all examples are.
\<close>

definition prod_a :: SSHWebshellTarget where
  "prod_a = \<lparr>wt_id = js ''prod-a'', wt_name = Some (js ''prod''),
             wt_host = Some (js ''10.0.0.5''), wt_port = Some 22,
             wt_username = Some (js ''root'')\<rparr>"

definition prod_b :: SSHWebshellTarget where
  "prod_b = \<lparr>wt_id = js ''prod-b'', wt_name = None, wt_host = Some (js ''10.0.0.6''),
             wt_port = Some 22, wt_username = Some (js ''root'')\<rparr>"

definition session_for :: "jsstring \<Rightarrow> jsstring \<Rightarrow> mcp_error + jsstring" where
  "session_for targetId reason = Inr (js ''http://localhost:9100/session/for-'' @ targetId)"

definition lower_ascii :: "jsstring \<Rightarrow> jsstring" where
  "lower_ascii s = map (\<lambda>c. if 0x41 \<le> c \<and> c \<le> 0x5A then c + 0x20 else c) s"

section \<open>Auth tokens used as examples\<close>

definition tok1_row :: AuthSessionRow where
  "tok1_row = \<lparr>as_token = js ''tok1'', as_username = js ''alice'', as_provider = js ''local'',
               as_createdAt = 1000, as_expiresAt = 2000\<rparr>"

definition tok2_row :: AuthSessionRow where
  "tok2_row = \<lparr>as_token = js ''tok2'', as_username = js ''bob'', as_provider = js ''local'',
               as_createdAt = 1000, as_expiresAt = 9000\<rparr>"

definition tokens_db :: WebshellDb where
  "tokens_db = \<lparr>targets = [], sessions = [], auth_sessions = [tok1_row, tok2_row]\<rparr>"

section \<open>Facts about the store\<close>

lemma finalize_row_twice:
  "(\<lambda>r. if sh_id r = h then r\<lparr>sh_endTime := Some t2, sh_status := s2\<rparr> else r) \<circ>
   (\<lambda>r. if sh_id r = h then r\<lparr>sh_endTime := Some t1, sh_status := s1\<rparr> else r)
   = (\<lambda>r. if sh_id r = h then r\<lparr>sh_endTime := Some t2, sh_status := s2\<rparr> else r)"
  by (rule ext) simp

lemma updateSessionEndTime_twice:
  "updateSessionEndTime (updateSessionEndTime db h t1 s1) h t2 s2 = updateSessionEndTime db h t2 s2"
  by (simp add: updateSessionEndTime_def finalize_row_twice)

lemma finalize_row_id:
  "sh_id \<circ> (\<lambda>r. if sh_id r = h then r\<lparr>sh_endTime := Some t, sh_status := s\<rparr> else r) = sh_id"
  by (rule ext) simp

lemma updateSessionEndTime_ids:
  "map sh_id (sessions (updateSessionEndTime db h t s)) = map sh_id (sessions db)"
  by (simp add: updateSessionEndTime_def finalize_row_id)

lemma updateSessionEndTime_row:
  assumes "r \<in> set (sessions (updateSessionEndTime db h t s))" and "sh_id r = h"
  shows "sh_endTime r = Some t \<and> sh_status r = s"
proof -
  let ?f = "\<lambda>r. if sh_id r = h then r\<lparr>sh_endTime := Some t, sh_status := s\<rparr> else r"
  have "sessions (updateSessionEndTime db h t s) = map ?f (sessions db)"
    by (simp add: updateSessionEndTime_def)
  with assms(1) have "r \<in> ?f ` set (sessions db)"
    by (simp only: set_map)
  then obtain x where x: "r = ?f x"
    by (rule imageE)
  show ?thesis
  proof (cases "sh_id x = h")
    case True
    with x show ?thesis by simp
  next
    case False
    with x have "r = x" by simp
    with False assms(2) show ?thesis by simp
  qed
qed

lemma finalize_calls_snoc:
  "finalize_calls db h (cs @ [c]) = updateSessionEndTime (finalize_calls db h cs) h (fst c) (snd c)"
  by (simp add: finalize_calls_def)

lemma finalize_calls_last:
  "cs \<noteq> [] \<Longrightarrow>
     finalize_calls db h cs = updateSessionEndTime db h (fst (last cs)) (snd (last cs))"
proof (induction cs rule: rev_induct)
  case Nil
  then show ?case by simp
next
  case (snoc c cs)
  show ?case
  proof (cases "cs = []")
    case True
    then show ?thesis by (simp add: finalize_calls_def)
  next
    case False
    with snoc.IH show ?thesis
      by (simp add: finalize_calls_snoc updateSessionEndTime_twice)
  qed
qed

lemma find_token_filter:
  "List.find (\<lambda>r. as_token r = token) rows = Some session \<Longrightarrow>
     session \<in> set rows \<and> as_token session = token"
  by (auto simp: find_Some_iff)

lemma deleteAuthSession_rows:
  "auth_sessions (deleteAuthSession db token) = filter (\<lambda>r. as_token r \<noteq> token) (auth_sessions db)"
  "targets (deleteAuthSession db token) = targets db"
  "sessions (deleteAuthSession db token) = sessions db"
  by (simp_all add: deleteAuthSession_def)

lemma finalize_row_other:
  "sh_id r \<noteq> h \<Longrightarrow>
     (if sh_id r = h then r\<lparr>sh_endTime := Some t, sh_status := s\<rparr> else r) = r"
  by simp

lemma updateSessionEndTime_nth:
  assumes "i < length (sessions db)"
  shows "sessions (updateSessionEndTime db h t s) ! i
           = (if sh_id (sessions db ! i) = h
              then (sessions db ! i)\<lparr>sh_endTime := Some t, sh_status := s\<rparr>
              else sessions db ! i)"
  using assms by (simp add: updateSessionEndTime_def)

lemma updateSessionEndTime_length:
  "length (sessions (updateSessionEndTime db h t s)) = length (sessions db)"
  by (simp add: updateSessionEndTime_def)

lemma updateSessionEndTime_other_tables:
  "targets (updateSessionEndTime db h t s) = targets db"
  "auth_sessions (updateSessionEndTime db h t s) = auth_sessions db"
  by (simp_all add: updateSessionEndTime_def)

section \<open>The example run, evaluated\<close>

lemma trim_examples:
  "trim (js ''prod-a'') = js ''prod-a''" "trim (js ''10.0.0.5'') = js ''10.0.0.5''"
  "trim (js ''root'') = js ''root''" "trim (js ''prod'') = js ''prod''"
  "trim (js ''incident-123'') = js ''incident-123''" "trim (js ''second'') = js ''second''"
  "trim (js '' prod-a '') = js ''prod-a''" "trim (js ''10.0.0.9 '') = js ''10.0.0.9''"
  "trim (js ''admin'') = js ''admin''" "trim (js '' Prod A '') = js ''Prod A''"
  "trim (js ''  '') = []" "trim (js ''secret'') = js ''secret''"
  "trim (js ''10.0.0.9'') = js ''10.0.0.9''"
  by (simp_all add: trim_def isWhiteSpace_def js_def)

lemma js_examples:
  "js ''prod-a'' \<noteq> []" "js ''10.0.0.5'' \<noteq> []" "js ''root'' \<noteq> []" "js ''prod'' \<noteq> []"
  "js ''incident-123'' \<noteq> []" "js ''second'' \<noteq> []" "js ''10.0.0.9'' \<noteq> []"
  "js ''admin'' \<noteq> []" "js ''Prod A'' \<noteq> []"
  "js ''h2'' \<noteq> js ''h1''" "js ''h1'' \<noteq> js ''h2''"
  by (simp_all add: js_def)

lemma scenario_target_eq:
  "scenario_target =
     \<lparr>g_db = \<lparr>targets = [prod_a_row], sessions = [], auth_sessions = []\<rparr>,
      g_sessions = Map.empty, g_connections = [],
      g_publicBaseUrl = js ''http://localhost:9100/''\<rparr>"
  by (simp add: scenario_target_def run_def startWebshellGateway_def empty_db_def post_targets_def
      target_row_def prod_a_body_def prod_a_row_def trimmed_field_def trim_examples js_examples
      getTarget_def createTarget_def finite_port_def or_null_def Let_def)

lemma scenario_session_eq:
  "scenario_session =
     \<lparr>g_db = \<lparr>targets = [prod_a_row], sessions = [h1_row], auth_sessions = []\<rparr>,
      g_sessions = [js ''h1'' \<mapsto> h1_info], g_connections = [],
      g_publicBaseUrl = js ''http://localhost:9100/''\<rparr>"
  by (simp add: scenario_session_def scenario_target_eq post_session_def incident_body_def
      prod_a_row_def h1_info_def h1_row_def trimmed_field_def trim_examples js_examples
      getTarget_def createSession_def createSessionHistoryRow_def or_null_def Let_def)

lemma scenario_awaiting_eq:
  "scenario_awaiting =
     \<lparr>g_db = \<lparr>targets = [prod_a_row], sessions = [h1_row], auth_sessions = []\<rparr>,
      g_sessions = [js ''h1'' \<mapsto> h1_info],
      g_connections = [Awaiting h1_info \<lparr>ws_readyState = OPEN, ws_sent = []\<rparr>],
      g_publicBaseUrl = js ''http://localhost:9100/''\<rparr>"
  by (simp add: scenario_awaiting_def scenario_session_eq ws_connection_def sessionId_param_def
      Let_def)

lemma scenario_attached_eq:
  "scenario_attached =
     \<lparr>g_db = \<lparr>targets = [prod_a_row], sessions = [h1_row], auth_sessions = []\<rparr>,
      g_sessions = [js ''h1'' \<mapsto> h1_info],
      g_connections = [Attached \<lparr>br_info = h1_info, br_target = prod_a_row,
                                 br_socket = \<lparr>ws_readyState = OPEN, ws_sent = []\<rparr>,
                                 br_ssh_ended = False, br_stream = False, br_written = []\<rparr>],
      g_publicBaseUrl = js ''http://localhost:9100/''\<rparr>"
  by (simp add: scenario_attached_def scenario_awaiting_eq target_loaded_def getTarget_def
      h1_info_def prod_a_row_def)

lemma scenario_error_eq:
  "scenario_error =
     \<lparr>g_db = \<lparr>targets = [prod_a_row],
              sessions = [h1_row\<lparr>sh_endTime := Some 2000, sh_status := Error\<rparr>],
              auth_sessions = []\<rparr>,
      g_sessions = [js ''h1'' \<mapsto> h1_info],
      g_connections = [Attached \<lparr>br_info = h1_info, br_target = prod_a_row,
                                 br_socket = \<lparr>ws_readyState = CLOSING,
                                              ws_sent = [ConnectFailedNotice]\<rparr>,
                                 br_ssh_ended = True, br_stream = False, br_written = []\<rparr>],
      g_publicBaseUrl = js ''http://localhost:9100/''\<rparr>"
  by (simp add: scenario_error_def scenario_attached_eq connection_event_def on_ssh_error_def
      updateSessionEndTime_def socket_send_def socket_close_def h1_info_def h1_row_def)

lemma scenario_error_closed_eq:
  "scenario_error_closed =
     \<lparr>g_db = \<lparr>targets = [prod_a_row],
              sessions = [h1_row\<lparr>sh_endTime := Some 2001, sh_status := Disconnected\<rparr>],
              auth_sessions = []\<rparr>,
      g_sessions = [js ''h1'' \<mapsto> h1_info],
      g_connections = [Attached \<lparr>br_info = h1_info, br_target = prod_a_row,
                                 br_socket = \<lparr>ws_readyState = CLOSED,
                                              ws_sent = [ConnectFailedNotice]\<rparr>,
                                 br_ssh_ended = True, br_stream = False, br_written = []\<rparr>],
      g_publicBaseUrl = js ''http://localhost:9100/''\<rparr>"
  by (simp add: scenario_error_closed_def scenario_error_eq connection_event_def
      on_socket_close_def updateSessionEndTime_def h1_info_def h1_row_def)

lemma scenario_data_eq:
  "scenario_data =
     \<lparr>g_db = \<lparr>targets = [prod_a_row], sessions = [h1_row], auth_sessions = []\<rparr>,
      g_sessions = [js ''h1'' \<mapsto> h1_info],
      g_connections = [Attached \<lparr>br_info = h1_info, br_target = prod_a_row,
                                 br_socket = \<lparr>ws_readyState = OPEN,
                                              ws_sent = [Text fifty_bytes]\<rparr>,
                                 br_ssh_ended = False, br_stream = True, br_written = []\<rparr>],
      g_publicBaseUrl = js ''http://localhost:9100/''\<rparr>"
  by (simp add: scenario_data_def run_def scenario_attached_eq connection_event_def
      on_shell_opened_def on_stream_data_def socket_send_def)

lemma scenario_data_closed_eq:
  "scenario_data_closed =
     \<lparr>g_db = \<lparr>targets = [prod_a_row],
              sessions = [h1_row\<lparr>sh_endTime := Some 3000, sh_status := Disconnected\<rparr>],
              auth_sessions = []\<rparr>,
      g_sessions = [js ''h1'' \<mapsto> h1_info],
      g_connections = [Attached \<lparr>br_info = h1_info, br_target = prod_a_row,
                                 br_socket = \<lparr>ws_readyState = CLOSED,
                                              ws_sent = [Text fifty_bytes]\<rparr>,
                                 br_ssh_ended = True, br_stream = True, br_written = []\<rparr>],
      g_publicBaseUrl = js ''http://localhost:9100/''\<rparr>"
  by (simp add: scenario_data_closed_def scenario_data_eq connection_event_def
      on_socket_close_def updateSessionEndTime_def h1_info_def h1_row_def)

lemma scenario_closed_early_eq:
  "scenario_closed_early =
     \<lparr>g_db = \<lparr>targets = [prod_a_row], sessions = [h1_row], auth_sessions = []\<rparr>,
      g_sessions = [js ''h1'' \<mapsto> h1_info],
      g_connections = [Attached \<lparr>br_info = h1_info, br_target = prod_a_row,
                                 br_socket = \<lparr>ws_readyState = CLOSED, ws_sent = []\<rparr>,
                                 br_ssh_ended = False, br_stream = False, br_written = []\<rparr>],
      g_publicBaseUrl = js ''http://localhost:9100/''\<rparr>"
  by (simp add: scenario_closed_early_def run_def scenario_awaiting_eq connection_event_def
      target_loaded_def getTarget_def h1_info_def prod_a_row_def)

lemma scenario_closed_early_again_eq: "scenario_closed_early_again = scenario_closed_early"
  by (simp add: scenario_closed_early_again_def scenario_closed_early_eq connection_event_def)

lemma scenario_target_gone_eq:
  "scenario_target_gone =
     \<lparr>g_db = \<lparr>targets = [], sessions = [h1_row], auth_sessions = []\<rparr>,
      g_sessions = [js ''h1'' \<mapsto> h1_info],
      g_connections = [Rejected \<lparr>ws_readyState = CLOSING, ws_sent = []\<rparr>],
      g_publicBaseUrl = js ''http://localhost:9100/''\<rparr>"
  by (simp add: scenario_target_gone_def run_def scenario_session_eq delete_targets_def
      deleteTarget_def trim_examples js_examples prod_a_row_def ws_connection_def
      sessionId_param_def target_loaded_def getTarget_def h1_info_def close_if_open_def
      socket_close_def connection_event_def)

section \<open>Facts about the gateway\<close>

lemma socket_close_open:
  "socket_close \<lparr>ws_readyState = OPEN, ws_sent = ms\<rparr> = \<lparr>ws_readyState = CLOSING, ws_sent = ms\<rparr>"
  by (simp add: socket_close_def)

lemma ws_connection_rejected:
  assumes "g_sessions g (sessionId_param param) = None"
  shows "ws_connection g param
           = g\<lparr>g_connections := g_connections g @ [Rejected \<lparr>ws_readyState = CLOSING, ws_sent = []\<rparr>]\<rparr>"
  using assms by (simp add: ws_connection_def Let_def socket_close_open)

lemma connection_event_rejected:
  assumes "i < length (g_connections g)" and "g_connections g ! i = Rejected s"
  shows "connection_event g i ev now = g"
  using assms by (simp add: connection_event_def)

lemma connection_event_attached:
  assumes "i < length (g_connections g)" and "g_connections g ! i = Attached b"
    and "\<not> (ev = SocketClose \<and> ws_readyState (br_socket b) = CLOSED)"
  shows "connection_event g i ev now
           = g\<lparr>g_db := fst (bridge_step (g_db g) b ev now),
               g_connections := (g_connections g)[i := Attached (snd (bridge_step (g_db g) b ev now))]\<rparr>"
proof (cases "ev = SocketClose")
  case True
  with assms(3) have "ws_readyState (br_socket b) \<noteq> CLOSED"
    by blast
  with assms(1,2) show ?thesis
    by (simp add: connection_event_def split_beta)
next
  case False
  with assms(1,2) show ?thesis
    by (simp add: connection_event_def split_beta)
qed

lemma connection_event_closed:
  assumes "i < length (g_connections g)" and "g_connections g ! i = Attached b"
    and "ws_readyState (br_socket b) = CLOSED"
  shows "connection_event g i SocketClose now = g"
  using assms by (simp add: connection_event_def)

lemma connection_event_awaiting_db:
  assumes "i < length (g_connections g)" and "g_connections g ! i = Awaiting info s"
  shows "g_db (connection_event g i ev now) = g_db g"
  using assms by (cases ev) (simp_all add: connection_event_def)

lemma find_finalized:
  "List.find (\<lambda>r. sh_id r = h)
      (map (\<lambda>r. if sh_id r = h then r\<lparr>sh_endTime := Some t, sh_status := s\<rparr> else r) rows)
     = map_option (\<lambda>r. r\<lparr>sh_endTime := Some t, sh_status := s\<rparr>)
         (List.find (\<lambda>r. sh_id r = h) rows)"
  by (induction rows) simp_all

lemma auditRecord_finalized:
  "auditRecord (updateSessionEndTime db h t s) h
     = map_option (\<lambda>r. r\<lparr>sh_endTime := Some t, sh_status := s\<rparr>) (auditRecord db h)"
  by (simp add: auditRecord_def updateSessionEndTime_def find_finalized)

lemma updateTarget_sessions: "sessions (updateTarget db row) = sessions db"
  by (simp add: updateTarget_def)

lemma deleteTarget_sessions: "sessions (deleteTarget db ident) = sessions db"
  by (simp add: deleteTarget_def)

lemma createTarget_sessions: "createTarget db row = Inr db' \<Longrightarrow> sessions db' = sessions db"
  by (cases "t_id row \<in> set (map t_id (targets db))") (auto simp: createTarget_def)

lemma post_targets_sessions: "sessions (g_db (snd (post_targets g body))) = sessions (g_db g)"
proof (cases "trimmed_field (body_id body) = [] \<or> trimmed_field (body_host body) = []
              \<or> trimmed_field (body_username body) = []")
  case True
  then show ?thesis by (simp add: post_targets_def Let_def)
next
  case False
  show ?thesis
  proof (cases "getTarget (g_db g) (trimmed_field (body_id body))")
    case (Some existing)
    with False show ?thesis
      by (simp add: post_targets_def Let_def updateTarget_sessions)
  next
    case None
    let ?row = "target_row body"
    show ?thesis
    proof (cases "createTarget (g_db g) ?row")
      case (Inl e)
      with False None show ?thesis by (simp add: post_targets_def Let_def)
    next
      case (Inr db')
      with False None show ?thesis
        by (simp add: post_targets_def Let_def createTarget_sessions [OF Inr])
    qed
  qed
qed

lemma put_targets_sessions: "sessions (g_db (snd (put_targets g param body))) = sessions (g_db g)"
proof (cases "trim param = []")
  case True
  then show ?thesis by (simp add: put_targets_def Let_def)
next
  case False
  then show ?thesis
    by (cases "getTarget (g_db g) (trim param)")
       (simp_all add: put_targets_def Let_def updateTarget_sessions)
qed

lemma delete_targets_sessions: "sessions (g_db (snd (delete_targets g param))) = sessions (g_db g)"
  by (simp add: delete_targets_def Let_def deleteTarget_sessions)

lemma ws_connection_db: "g_db (ws_connection g param) = g_db g"
  by (cases "g_sessions g (sessionId_param param)") (simp_all add: ws_connection_def Let_def)

lemma target_loaded_db: "g_db (target_loaded g i outcome) = g_db g"
proof (cases "i < length (g_connections g)")
  case False
  then show ?thesis by (simp add: target_loaded_def)
next
  case True
  show ?thesis
  proof (cases "g_connections g ! i")
    case (Rejected s)
    with True show ?thesis by (simp add: target_loaded_def)
  next
    case (Attached b)
    with True show ?thesis by (simp add: target_loaded_def)
  next
    case (Awaiting info s)
    show ?thesis
    proof (cases "getTarget (g_db g) (si_targetId info)")
      case None
      with True Awaiting show ?thesis by (simp add: target_loaded_def)
    next
      case (Some target)
      with True Awaiting show ?thesis by (cases outcome) (simp_all add: target_loaded_def)
    qed
  qed
qed

lemma audit_invariant_finalized:
  assumes "audit_invariant db" and "s \<noteq> Connected"
  shows "audit_invariant (updateSessionEndTime db h t s)"
  unfolding audit_invariant_def
proof
  fix r assume r: "r \<in> set (sessions (updateSessionEndTime db h t s))"
  let ?f = "\<lambda>r. if sh_id r = h then r\<lparr>sh_endTime := Some t, sh_status := s\<rparr> else r"
  have "sessions (updateSessionEndTime db h t s) = map ?f (sessions db)"
    by (simp add: updateSessionEndTime_def)
  with r have "r \<in> ?f ` set (sessions db)"
    by (simp only: set_map)
  then obtain x where x: "x \<in> set (sessions db)" "r = ?f x"
    by (rule imageE)
  show "(sh_endTime r \<noteq> None) = (sh_status r \<noteq> Connected)"
  proof (cases "sh_id x = h")
    case True
    with x assms(2) show ?thesis by simp
  next
    case False
    with x have "r = x" by simp
    with x(1) assms(1) show ?thesis by (simp add: audit_invariant_def)
  qed
qed

lemma bridge_step_db:
  "fst (bridge_step db b ev now) = db
   \<or> fst (bridge_step db b ev now) = updateSessionEndTime db (si_id (br_info b)) now Error
   \<or> fst (bridge_step db b ev now) = updateSessionEndTime db (si_id (br_info b)) now Disconnected"
  by (cases ev) (simp_all add: on_shell_failed_def on_ssh_error_def on_socket_close_def)

lemma audit_invariant_bridge_step:
  assumes "audit_invariant db"
  shows "audit_invariant (fst (bridge_step db b ev now))"
  using bridge_step_db [of db b ev now] assms
  by (auto simp: audit_invariant_finalized)

lemma audit_invariant_connection_event:
  assumes "audit_invariant (g_db g)"
  shows "audit_invariant (g_db (connection_event g i ev now))"
proof (cases "i < length (g_connections g)")
  case False
  with assms show ?thesis by (simp add: connection_event_def)
next
  case True
  show ?thesis
  proof (cases "g_connections g ! i")
    case (Rejected s)
    with True assms show ?thesis by (simp add: connection_event_rejected)
  next
    case (Awaiting info s)
    with True assms show ?thesis by (simp add: connection_event_awaiting_db)
  next
    case (Attached b)
    show ?thesis
    proof (cases "ev = SocketClose \<and> ws_readyState (br_socket b) = CLOSED")
      case closed: True
      with True Attached assms show ?thesis by (simp add: connection_event_closed)
    next
      case False
      have "g_db (connection_event g i ev now) = fst (bridge_step (g_db g) b ev now)"
        by (simp add: connection_event_attached [OF True Attached False])
      with assms show ?thesis by (simp add: audit_invariant_bridge_step)
    qed
  qed
qed

lemma audit_invariant_createSession:
  assumes "audit_invariant db"
    and "createSession db (createSessionHistoryRow ident target reason now) = Inr db'"
  shows "audit_invariant db'"
proof -
  let ?row = "createSessionHistoryRow ident target reason now"
  have fresh: "sh_id ?row \<notin> set (map sh_id (sessions db))"
    using assms(2) by (auto simp: createSession_def split: if_splits)
  with assms(2) have "sessions db' = sessions db @ [?row]"
    by (auto simp: createSession_def)
  moreover have "(sh_endTime ?row \<noteq> None) = (sh_status ?row \<noteq> Connected)"
    by (simp add: createSessionHistoryRow_def)
  ultimately show ?thesis
    using assms(1) by (auto simp: audit_invariant_def)
qed

lemma audit_invariant_post_session:
  assumes "audit_invariant (g_db g)"
  shows "audit_invariant (g_db (snd (post_session g body uuid createdAt now)))"
proof (cases "trimmed_field (body_targetId body) = []")
  case True
  with assms show ?thesis by (simp add: post_session_def Let_def)
next
  case False
  show ?thesis
  proof (cases "getTarget (g_db g) (trimmed_field (body_targetId body))")
    case None
    with False assms show ?thesis by (simp add: post_session_def Let_def)
  next
    case (Some target)
    let ?row = "createSessionHistoryRow uuid target (trimmed_field (body_reason body)) now"
    show ?thesis
    proof (cases "createSession (g_db g) ?row")
      case (Inl e)
      with False Some assms show ?thesis by (simp add: post_session_def Let_def)
    next
      case (Inr db')
      have "audit_invariant db'"
        using assms Inr by (rule audit_invariant_createSession)
      with False Some Inr show ?thesis by (simp add: post_session_def Let_def)
    qed
  qed
qed

lemma audit_invariant_sessions_eq:
  "sessions db' = sessions db \<Longrightarrow> audit_invariant db \<Longrightarrow> audit_invariant db'"
  by (simp add: audit_invariant_def)

lemma audit_invariant_gateway_step:
  assumes "audit_invariant (g_db g)"
  shows "audit_invariant (g_db (gateway_step g ev))"
proof (cases ev)
  case (PostTargets body)
  with assms show ?thesis
    by (simp add: audit_invariant_sessions_eq [OF post_targets_sessions])
next
  case (PutTargets param body)
  with assms show ?thesis
    by (simp add: audit_invariant_sessions_eq [OF put_targets_sessions])
next
  case (DeleteTargets param)
  with assms show ?thesis
    by (simp add: audit_invariant_sessions_eq [OF delete_targets_sessions])
next
  case (PostSession body uuid createdAt now)
  with assms show ?thesis by (simp add: audit_invariant_post_session)
next
  case (WsConnection param)
  with assms show ?thesis by (simp add: ws_connection_db)
next
  case (TargetLoaded i outcome)
  with assms show ?thesis by (simp add: target_loaded_db)
next
  case (ConnectionEvent i bev now)
  with assms show ?thesis by (simp add: audit_invariant_connection_event)
qed

lemma audit_invariant_run:
  "audit_invariant (g_db g) \<Longrightarrow> audit_invariant (g_db (run g evs))"
  unfolding run_def
  by (induction evs arbitrary: g) (simp_all add: audit_invariant_gateway_step)














lemma getTarget_id: "getTarget db ident = Some target \<Longrightarrow> t_id target = ident"
  by (auto simp: getTarget_def find_Some_iff)




text \<open>
  Once a connection is attached and its socket has not yet emitted \<open>close\<close>, the
  \<open>close\<close> event ends the remote-login client and overwrites the audit row of the session
  with status disconnected and the time of the event.
\<close>

lemma socket_close_after_attach:
  assumes "i < length (g_connections g)"
    and "g_connections g ! i = Attached b"
    and "ws_readyState (br_socket b) \<noteq> CLOSED"
    and "auditRecord (g_db g) (si_id (br_info b)) = Some r"
  shows "g_connections (connection_event g i SocketClose now) ! i
           = Attached (b\<lparr>br_socket := (br_socket b)\<lparr>ws_readyState := CLOSED\<rparr>, br_ssh_ended := True\<rparr>)
       \<and> auditRecord (g_db (connection_event g i SocketClose now)) (si_id (br_info b))
           = Some (r\<lparr>sh_endTime := Some now, sh_status := Disconnected\<rparr>)
       \<and> map sh_id (sessions (g_db (connection_event g i SocketClose now)))
           = map sh_id (sessions (g_db g))"
proof -
  let ?g' = "connection_event g i SocketClose now"
  have step: "bridge_step (g_db g) b SocketClose now
                = (updateSessionEndTime (g_db g) (si_id (br_info b)) now Disconnected,
                   b\<lparr>br_socket := (br_socket b)\<lparr>ws_readyState := CLOSED\<rparr>, br_ssh_ended := True\<rparr>)"
    by (simp add: on_socket_close_def)
  have open_yet: "\<not> (SocketClose = SocketClose \<and> ws_readyState (br_socket b) = CLOSED)"
    using assms(3) by simp
  have eq: "?g' = g\<lparr>g_db := updateSessionEndTime (g_db g) (si_id (br_info b)) now Disconnected,
                    g_connections := (g_connections g)
                       [i := Attached (b\<lparr>br_socket := (br_socket b)\<lparr>ws_readyState := CLOSED\<rparr>,
                                         br_ssh_ended := True\<rparr>)]\<rparr>"
    by (simp only: connection_event_attached [OF assms(1,2) open_yet] step fst_conv snd_conv)
  have conn: "g_connections ?g' ! i
                = Attached (b\<lparr>br_socket := (br_socket b)\<lparr>ws_readyState := CLOSED\<rparr>, br_ssh_ended := True\<rparr>)"
    using assms(1) by (simp add: eq)
  have db: "g_db ?g' = updateSessionEndTime (g_db g) (si_id (br_info b)) now Disconnected"
    by (simp add: eq)
  have row: "auditRecord (g_db ?g') (si_id (br_info b))
               = Some (r\<lparr>sh_endTime := Some now, sh_status := Disconnected\<rparr>)"
    by (simp add: db auditRecord_finalized assms(4))
  have ids: "map sh_id (sessions (g_db ?g')) = map sh_id (sessions (g_db g))"
    by (simp only: db updateSessionEndTime_ids)
  from conn row ids show ?thesis by blast
qed

section \<open>Facts about the tools\<close>

lemma js_includes_sublist: "js_includes s sub = sublist sub s"
  by (induction s) (simp_all add: sublist_Cons_right)

lemma lower_ascii_empty: "(lower_ascii s = []) = (s = [])"
  by (simp add: lower_ascii_def)

lemma match_target_foldl:
  "foldl (match_target lower lowered) acc list
     = (fst acc @ filter (isExact lower lowered) list,
        snd acc @ filter (isPartial lower lowered) list)"
proof (induction list arbitrary: acc)
  case Nil
  show ?case by simp
next
  case (Cons t list)
  have not_both: "isPartial lower lowered t \<Longrightarrow> \<not> isExact lower lowered t"
    by (simp add: isPartial_def Let_def)
  show ?case
  proof (cases "isExact lower lowered t")
    case True
    then have "match_target lower lowered acc t = (fst acc @ [t], snd acc)"
      by (simp add: match_target_def)
    moreover from True not_both have "\<not> isPartial lower lowered t"
      by blast
    ultimately show ?thesis
      using True by (simp add: Cons.IH)
  next
    case False
    show ?thesis
    proof (cases "isPartial lower lowered t")
      case True
      with False have "match_target lower lowered acc t = (fst acc, snd acc @ [t])"
        by (simp add: match_target_def)
      with True False show ?thesis
        by (simp add: Cons.IH)
    next
      case neither: False
      with False have "match_target lower lowered acc t = acc"
        by (simp add: match_target_def)
      with neither False show ?thesis
        by (simp add: Cons.IH)
    qed
  qed
qed

lemma candidates_filter:
  "candidates lower lowered list
     = (if filter (isExact lower lowered) list \<noteq> [] then filter (isExact lower lowered) list
        else filter (isPartial lower lowered) list)"
  by (simp add: candidates_def match_target_foldl Let_def)

lemma isExact_spec:
  assumes "\<And>s. (lower s = []) = (s = [])"
  shows "isExact lower (lower hint) t = spec_exact lower hint t"
proof (cases "wt_name t")
  case None
  then show ?thesis
    by (simp add: isExact_def spec_exact_def assms)
next
  case (Some n)
  then show ?thesis
    by (simp add: isExact_def spec_exact_def assms)
qed

lemma isPartial_spec:
  assumes "\<And>s. (lower s = []) = (s = [])"
  shows "isPartial lower (lower hint) t
           = (\<not> spec_exact lower hint t \<and> spec_contains lower hint t)"
proof (cases "wt_name t")
  case None
  then show ?thesis
    by (simp add: isPartial_def isExact_spec [OF assms] spec_contains_def js_includes_sublist assms)
next
  case (Some n)
  then show ?thesis
    by (simp add: isPartial_def isExact_spec [OF assms] spec_contains_def js_includes_sublist assms)
qed

lemma candidates_spec:
  assumes "\<And>s. (lower s = []) = (s = [])"
  shows "candidates lower (lower hint) list = spec_candidates lower hint list"
proof -
  have "isExact lower (lower hint) = spec_exact lower hint"
    by (intro ext isExact_spec assms)
  then have exact: "filter (isExact lower (lower hint)) list = filter (spec_exact lower hint) list"
    by simp
  show ?thesis
  proof (cases "filter (spec_exact lower hint) list = []")
    case False
    with exact show ?thesis
      by (simp add: candidates_filter spec_candidates_def)
  next
    case True
    then have none: "\<forall>t \<in> set list. \<not> spec_exact lower hint t"
      by (simp add: filter_empty_conv)
    have "filter (isPartial lower (lower hint)) list = filter (spec_contains lower hint) list"
      by (rule filter_cong) (simp_all add: isPartial_spec [OF assms] none)
    with exact True show ?thesis
      by (simp add: candidates_filter spec_candidates_def)
  qed
qed

lemma open_ssh_terminal_resolves:
  assumes "\<And>s. (lower s = []) = (s = [])"
    and "trim targetHint \<noteq> []" and "list \<noteq> []"
  shows "open_ssh_terminal lower (Inr list) createWebshellSession targetHint reason
           = spec_resolve lower createWebshellSession (trim targetHint) reason list"
proof -
  have cands: "candidates lower (lower (trim targetHint)) list
                 = spec_candidates lower (trim targetHint) list"
    using assms(1) by (rule candidates_spec)
  show ?thesis
  proof (cases "spec_candidates lower (trim targetHint) list")
    case Nil
    with assms(2,3) cands show ?thesis
      by (simp add: open_ssh_terminal_def spec_resolve_def Let_def)
  next
    case (Cons t rest)
    with assms(2,3) cands show ?thesis
      by (cases rest) (simp_all add: open_ssh_terminal_def spec_resolve_def Let_def)
  qed
qed

lemma find_None_equal:
  "(List.find (\<lambda>t. wt_id t = tid \<or> wt_name t = Some tid) ts = None)
     = (\<forall>t \<in> set ts. wt_id t \<noteq> tid \<and> wt_name t \<noteq> Some tid)"
  by (auto simp: find_None_iff)

section \<open>Claims about the store\<close>

text \<open>
  C7. Reading an auth token whose \<open>expiresAt\<close> is at or before the current time returns
  absent and removes the row from the store: afterwards no row carries the token, the rows
  of every other token are as before and the other tables are untouched. Reading a token
  that has not expired returns its row and leaves the store as it was.
\<close>

theorem C7_getAuthSession_lazy_expiry:
  assumes "List.find (\<lambda>r. as_token r = token) (auth_sessions db) = Some session"
  shows "(as_expiresAt session \<le> now \<longrightarrow>
            fst (getAuthSession db token now) = None
          \<and> session \<notin> set (auth_sessions (snd (getAuthSession db token now)))
          \<and> token \<notin> set (map as_token (auth_sessions (snd (getAuthSession db token now))))
          \<and> filter (\<lambda>r. as_token r \<noteq> token) (auth_sessions (snd (getAuthSession db token now)))
              = filter (\<lambda>r. as_token r \<noteq> token) (auth_sessions db)
          \<and> targets (snd (getAuthSession db token now)) = targets db
          \<and> sessions (snd (getAuthSession db token now)) = sessions db)
       \<and> (now < as_expiresAt session \<longrightarrow>
            getAuthSession db token now = (Some session, db))"
proof -
  have tok: "as_token session = token"
    using find_token_filter [OF assms] by blast
  have expired: "getAuthSession db token now = (None, deleteAuthSession db token)"
    if "as_expiresAt session \<le> now"
    using assms that by (simp add: getAuthSession_def)
  have live: "getAuthSession db token now = (Some session, db)"
    if "now < as_expiresAt session"
    using assms that by (simp add: getAuthSession_def)
  have gone: "session \<notin> set (auth_sessions (deleteAuthSession db token))"
    by (simp add: deleteAuthSession_rows tok)
  have none: "token \<notin> set (map as_token (auth_sessions (deleteAuthSession db token)))"
    by (auto simp: deleteAuthSession_rows)
  have others: "filter (\<lambda>r. as_token r \<noteq> token) (auth_sessions (deleteAuthSession db token))
                  = filter (\<lambda>r. as_token r \<noteq> token) (auth_sessions db)"
    by (simp add: deleteAuthSession_rows)
  show ?thesis
  proof (intro conjI impI)
    assume e: "as_expiresAt session \<le> now"
    have s: "snd (getAuthSession db token now) = deleteAuthSession db token"
      by (simp add: expired [OF e])
    show "fst (getAuthSession db token now) = None"
      by (simp add: expired [OF e])
    show "session \<notin> set (auth_sessions (snd (getAuthSession db token now)))"
      unfolding s by (rule gone)
    show "token \<notin> set (map as_token (auth_sessions (snd (getAuthSession db token now))))"
      unfolding s by (rule none)
    show "filter (\<lambda>r. as_token r \<noteq> token) (auth_sessions (snd (getAuthSession db token now)))
              = filter (\<lambda>r. as_token r \<noteq> token) (auth_sessions db)"
      unfolding s by (rule others)
    show "targets (snd (getAuthSession db token now)) = targets db"
      unfolding s by (rule deleteAuthSession_rows)
    show "sessions (snd (getAuthSession db token now)) = sessions db"
      unfolding s by (rule deleteAuthSession_rows)
  next
    assume "now < as_expiresAt session"
    then show "getAuthSession db token now = (Some session, db)"
      by (rule live)
  qed
qed

theorem C7_getAuthSession_lazy_expiry_witness:
  "fst (getAuthSession tokens_db (js ''tok1'') 2000) = None
   \<and> auth_sessions (snd (getAuthSession tokens_db (js ''tok1'') 2000)) = [tok2_row]
   \<and> getAuthSession tokens_db (js ''tok1'') 1999 = (Some tok1_row, tokens_db)"
proof -
  have found: "List.find (\<lambda>r. as_token r = js ''tok1'') (auth_sessions tokens_db) = Some tok1_row"
    by (simp add: tokens_db_def tok1_row_def)
  have at_expiry: "as_expiresAt tok1_row \<le> 2000" and before: "1999 < as_expiresAt tok1_row"
    by (simp_all add: tok1_row_def)
  have expired: "fst (getAuthSession tokens_db (js ''tok1'') 2000) = None"
    using C7_getAuthSession_lazy_expiry [OF found, of 2000] at_expiry by blast
  have live: "getAuthSession tokens_db (js ''tok1'') 1999 = (Some tok1_row, tokens_db)"
    using C7_getAuthSession_lazy_expiry [OF found, of 1999] before by blast
  have rest: "auth_sessions (snd (getAuthSession tokens_db (js ''tok1'') 2000)) = [tok2_row]"
    by (simp add: getAuthSession_def deleteAuthSession_def tokens_db_def tok1_row_def
        tok2_row_def js_def)
  from expired live rest show ?thesis by simp
qed

text \<open>
  C8. \<open>updateSessionEndTime\<close> overwrites the audit row the handle names and nothing else.
  After any non-empty sequence of calls for one handle, with the same or with different end
  times and statuses, the table has as many rows as before; at every position the row of
  that handle is the row that was there with the end time and the status of the last call
  and all its other columns as they were, and the row of any other handle is unchanged; the
  other tables are unchanged. The table is the one a single call with the arguments of the
  last call leaves, and repeating the last call changes nothing.
\<close>

theorem C8_updateSessionEndTime_idempotent_overwrite:
  assumes "calls \<noteq> []"
  shows "length (sessions (finalize_calls db h calls)) = length (sessions db)
       \<and> (\<forall>i < length (sessions db).
             sessions (finalize_calls db h calls) ! i
               = (if sh_id (sessions db ! i) = h
                  then (sessions db ! i)\<lparr>sh_endTime := Some (fst (last calls)),
                                          sh_status := snd (last calls)\<rparr>
                  else sessions db ! i))
       \<and> map sh_id (sessions (finalize_calls db h calls)) = map sh_id (sessions db)
       \<and> (\<forall>r \<in> set (sessions (finalize_calls db h calls)).
             sh_id r = h \<longrightarrow> sh_endTime r = Some (fst (last calls)) \<and> sh_status r = snd (last calls))
       \<and> targets (finalize_calls db h calls) = targets db
       \<and> auth_sessions (finalize_calls db h calls) = auth_sessions db
       \<and> finalize_calls db h calls
           = updateSessionEndTime db h (fst (last calls)) (snd (last calls))
       \<and> finalize_calls db h (calls @ [last calls]) = finalize_calls db h calls"
proof -
  have eq: "finalize_calls db h calls
              = updateSessionEndTime db h (fst (last calls)) (snd (last calls))"
    using assms by (rule finalize_calls_last)
  have len: "length (sessions (finalize_calls db h calls)) = length (sessions db)"
    by (simp only: eq updateSessionEndTime_length)
  have nth: "\<forall>i < length (sessions db).
               sessions (finalize_calls db h calls) ! i
                 = (if sh_id (sessions db ! i) = h
                    then (sessions db ! i)\<lparr>sh_endTime := Some (fst (last calls)),
                                            sh_status := snd (last calls)\<rparr>
                    else sessions db ! i)"
    unfolding eq using updateSessionEndTime_nth by blast
  have ids: "map sh_id (sessions (finalize_calls db h calls)) = map sh_id (sessions db)"
    by (simp only: eq updateSessionEndTime_ids)
  have rows: "\<forall>r \<in> set (sessions (finalize_calls db h calls)).
                sh_id r = h \<longrightarrow> sh_endTime r = Some (fst (last calls)) \<and> sh_status r = snd (last calls)"
    unfolding eq using updateSessionEndTime_row by blast
  have tables: "targets (finalize_calls db h calls) = targets db"
    "auth_sessions (finalize_calls db h calls) = auth_sessions db"
    by (simp_all only: eq updateSessionEndTime_other_tables)
  have again: "finalize_calls db h (calls @ [last calls]) = finalize_calls db h calls"
    by (simp only: finalize_calls_snoc eq updateSessionEndTime_twice)
  from len nth ids rows tables eq again show ?thesis by blast
qed

theorem C8_updateSessionEndTime_idempotent_overwrite_witness:
  "sessions (finalize_calls two_sessions_db (js ''h1'') [(200, Error), (300, Disconnected)])
     = [h1_row\<lparr>sh_endTime := Some 300, sh_status := Disconnected\<rparr>, h2_row]
   \<and> sessions two_sessions_db = [h1_row, h2_row]"
proof -
  let ?after = "sessions (finalize_calls two_sessions_db (js ''h1'')
                  [(200, Error), (300, Disconnected)])"
  have ne: "[(200::date, Error), (300, Disconnected)] \<noteq> []"
    by simp
  have before: "sessions two_sessions_db = [h1_row, h2_row]"
    by (simp add: two_sessions_db_def)
  have ids: "sh_id h1_row = js ''h1''" "sh_id h2_row \<noteq> js ''h1''"
    by (simp_all add: h1_row_def h2_row_def js_def)
  note inst = C8_updateSessionEndTime_idempotent_overwrite [OF ne, of two_sessions_db "js ''h1''"]
  have len: "length ?after = length (sessions two_sessions_db)"
    using inst by (rule conjunct1)
  have nth: "\<forall>i < length (sessions two_sessions_db).
               ?after ! i
                 = (if sh_id (sessions two_sessions_db ! i) = js ''h1''
                    then (sessions two_sessions_db ! i)
                           \<lparr>sh_endTime := Some (fst (last [(200::date, Error), (300, Disconnected)])),
                            sh_status := snd (last [(200::date, Error), (300, Disconnected)])\<rparr>
                    else sessions two_sessions_db ! i)"
    using inst by (rule conjunct1 [OF conjunct2])
  have two: "length ?after = 2"
    by (simp add: len before)
  have first: "?after ! 0 = h1_row\<lparr>sh_endTime := Some 300, sh_status := Disconnected\<rparr>"
    using nth [rule_format, of 0] by (simp add: before ids)
  have second: "?after ! 1 = h2_row"
    using nth [rule_format, of 1] by (simp add: before ids)
  have "?after = [h1_row\<lparr>sh_endTime := Some 300, sh_status := Disconnected\<rparr>, h2_row]"
    using two first second
    by (simp add: list_eq_iff_nth_eq numeral_2_eq_2 less_Suc_eq)
  with before show ?thesis by simp
qed

section \<open>Claims about attaching and bridging\<close>

text \<open>
  C6. An attach attempt whose handle is not in the in-memory session table closes the
  caller's socket at once, with nothing sent on it, and has no effect on the audit table:
  the store and the session table are as before, the connection is recorded as rejected
  with its socket closing, and no later event of that connection changes anything, since
  no handler was registered for it.
\<close>

theorem C6_attach_unknown_handle:
  assumes "g_sessions g (sessionId_param param) = None"
  shows "g_connections (ws_connection g param)
           = g_connections g @ [Rejected \<lparr>ws_readyState = CLOSING, ws_sent = []\<rparr>]
       \<and> g_db (ws_connection g param) = g_db g
       \<and> g_sessions (ws_connection g param) = g_sessions g
       \<and> (\<forall>ev now. connection_event (ws_connection g param) (length (g_connections g)) ev now
                      = ws_connection g param)"
proof -
  let ?g' = "ws_connection g param"
  have eq: "?g' = g\<lparr>g_connections := g_connections g @ [Rejected \<lparr>ws_readyState = CLOSING, ws_sent = []\<rparr>]\<rparr>"
    using assms by (rule ws_connection_rejected)
  have conns: "g_connections ?g' = g_connections g @ [Rejected \<lparr>ws_readyState = CLOSING, ws_sent = []\<rparr>]"
    by (simp add: eq)
  have db: "g_db ?g' = g_db g" and live: "g_sessions ?g' = g_sessions g"
    by (simp_all add: eq)
  have len: "length (g_connections g) < length (g_connections ?g')"
    by (simp add: conns)
  have nth: "g_connections ?g' ! length (g_connections g) = Rejected \<lparr>ws_readyState = CLOSING, ws_sent = []\<rparr>"
    by (simp add: conns)
  have later: "connection_event ?g' (length (g_connections g)) ev now = ?g'" for ev now
    using len nth by (rule connection_event_rejected)
  from conns db live later show ?thesis by blast
qed

theorem C6_attach_unknown_handle_witness:
  "g_sessions scenario_session (sessionId_param (Some (js ''h2''))) = None
   \<and> g_connections (ws_connection scenario_session (Some (js ''h2'')))
       = [Rejected \<lparr>ws_readyState = CLOSING, ws_sent = []\<rparr>]
   \<and> sessions (g_db (ws_connection scenario_session (Some (js ''h2'')))) = [h1_row]
   \<and> g_sessions (startWebshellGateway (g_db scenario_session) (js ''http://localhost:9100/''))
         (sessionId_param (Some (js ''h1''))) = None
   \<and> g_connections (ws_connection
         (startWebshellGateway (g_db scenario_session) (js ''http://localhost:9100/''))
         (Some (js ''h1'')))
       = [Rejected \<lparr>ws_readyState = CLOSING, ws_sent = []\<rparr>]
   \<and> sessions (g_db (ws_connection
         (startWebshellGateway (g_db scenario_session) (js ''http://localhost:9100/''))
         (Some (js ''h1''))))
       = [h1_row]"
proof -
  let ?restarted = "startWebshellGateway (g_db scenario_session) (js ''http://localhost:9100/'')"
  have absent: "g_sessions scenario_session (sessionId_param (Some (js ''h2''))) = None"
    by (simp add: scenario_session_eq sessionId_param_def js_examples)
  have lost: "g_sessions ?restarted (sessionId_param (Some (js ''h1''))) = None"
    by (simp add: startWebshellGateway_def)
  have before: "g_connections scenario_session = []" "sessions (g_db scenario_session) = [h1_row]"
    by (simp_all add: scenario_session_eq)
  have restarted: "g_connections ?restarted = []" "sessions (g_db ?restarted) = [h1_row]"
    by (simp_all add: startWebshellGateway_def scenario_session_eq)
  from C6_attach_unknown_handle [OF absent] before
  have never_issued: "g_connections (ws_connection scenario_session (Some (js ''h2'')))
                        = [Rejected \<lparr>ws_readyState = CLOSING, ws_sent = []\<rparr>]
                      \<and> sessions (g_db (ws_connection scenario_session (Some (js ''h2'')))) = [h1_row]"
    by simp
  from C6_attach_unknown_handle [OF lost] restarted
  have after_restart: "g_connections (ws_connection ?restarted (Some (js ''h1'')))
                         = [Rejected \<lparr>ws_readyState = CLOSING, ws_sent = []\<rparr>]
                       \<and> sessions (g_db (ws_connection ?restarted (Some (js ''h1'')))) = [h1_row]"
    by simp
  from absent lost never_issued after_restart show ?thesis
    by blast
qed

text \<open>
  C5. The claim: when the socket of an attached session closes, the bridge closes the
  remote channel and the audit row is finalized with status disconnected and an end time.
  The close handler that does this is registered only after the connection handler has
  awaited the target. In the example the caller connects with the handle \<open>h1\<close> and its
  socket closes while the handler awaits: the \<open>close\<close> event finds no handler, the
  handler goes on to start the remote-login client, \<open>ssh.end()\<close> is never called, no
  later \<open>close\<close> event comes, and the audit row stays connected without end time. The
  same holds when the target was deleted before the caller connects: the handler closes the
  socket itself and no handler finalizes the row. When the socket closes after the handler
  is registered, the row ends disconnected with the time of the event.
\<close>

theorem C5_close_while_awaiting_target_leaves_row_connected:
  "g_connections scenario_awaiting
     = [Awaiting h1_info \<lparr>ws_readyState = OPEN, ws_sent = []\<rparr>]
   \<and> g_connections scenario_closed_early
     = [Attached \<lparr>br_info = h1_info, br_target = prod_a_row,
                  br_socket = \<lparr>ws_readyState = CLOSED, ws_sent = []\<rparr>,
                  br_ssh_ended = False, br_stream = False, br_written = []\<rparr>]
   \<and> auditRecord (g_db scenario_closed_early) (js ''h1'') = Some h1_row
   \<and> sh_status h1_row = Connected
   \<and> sh_endTime h1_row = None
   \<and> scenario_closed_early_again = scenario_closed_early
   \<and> g_connections scenario_target_gone = [Rejected \<lparr>ws_readyState = CLOSING, ws_sent = []\<rparr>]
   \<and> auditRecord (g_db scenario_target_gone) (js ''h1'') = Some h1_row
   \<and> auditRecord (g_db scenario_data_closed) (js ''h1'')
     = Some (h1_row\<lparr>sh_endTime := Some 3000, sh_status := Disconnected\<rparr>)"
  by (simp add: scenario_awaiting_eq scenario_closed_early_eq scenario_closed_early_again_eq
      scenario_target_gone_eq scenario_data_closed_eq auditRecord_def h1_row_def)

text \<open>
  C1. The claim: when the remote-login client of an attached session reports an error, the
  caller is sent a diagnostic message, its socket is closed, and the audit row ends with
  status error. In the example run the error handler does send the notice, close the socket
  and write status error with end time 2000; the \<open>close\<close> event of that socket then runs
  the socket's close handler, which writes status disconnected with end time 2001 over it.
  The row ends disconnected, not error.
\<close>

theorem C1_error_status_overwritten_by_close:
  "g_connections scenario_attached
     = [Attached \<lparr>br_info = h1_info, br_target = prod_a_row,
                  br_socket = \<lparr>ws_readyState = OPEN, ws_sent = []\<rparr>,
                  br_ssh_ended = False, br_stream = False, br_written = []\<rparr>]
   \<and> g_connections scenario_error
     = [Attached \<lparr>br_info = h1_info, br_target = prod_a_row,
                  br_socket = \<lparr>ws_readyState = CLOSING, ws_sent = [ConnectFailedNotice]\<rparr>,
                  br_ssh_ended = True, br_stream = False, br_written = []\<rparr>]
   \<and> auditRecord (g_db scenario_error) (js ''h1'')
     = Some (h1_row\<lparr>sh_endTime := Some 2000, sh_status := Error\<rparr>)
   \<and> auditRecord (g_db scenario_error_closed) (js ''h1'')
     = Some (h1_row\<lparr>sh_endTime := Some 2001, sh_status := Disconnected\<rparr>)"
  by (simp add: scenario_attached_eq scenario_error_eq scenario_error_closed_eq auditRecord_def
      h1_row_def)

section \<open>Claims about the audit table and the routes\<close>

text \<open>
  C2. Every row of the audit table has an end time exactly when its status is not
  connected, in every state the gateway reaches from a store that satisfies this, whatever
  requests and events arrive. The row written at session creation has status connected and
  no end time; an event of a bridge either leaves the store alone or overwrites the end time
  of the bridge's row with the time of the event, together with status error or
  disconnected.
\<close>

theorem C2_audit_end_time_iff_not_connected:
  assumes "audit_invariant (g_db g)"
  shows "(\<forall>r \<in> set (sessions (g_db (run g evs))).
            (sh_endTime r \<noteq> None) = (sh_status r \<noteq> Connected))
       \<and> sh_status (createSessionHistoryRow ident target reason now) = Connected
       \<and> sh_endTime (createSessionHistoryRow ident target reason now) = None
       \<and> (fst (bridge_step db b ev now) = db
          \<or> fst (bridge_step db b ev now) = updateSessionEndTime db (si_id (br_info b)) now Error
          \<or> fst (bridge_step db b ev now)
               = updateSessionEndTime db (si_id (br_info b)) now Disconnected)"
proof -
  have "audit_invariant (g_db (run g evs))"
    using assms by (rule audit_invariant_run)
  then have inv: "\<forall>r \<in> set (sessions (g_db (run g evs))).
                    (sh_endTime r \<noteq> None) = (sh_status r \<noteq> Connected)"
    by (simp add: audit_invariant_def)
  have created: "sh_status (createSessionHistoryRow ident target reason now) = Connected"
    "sh_endTime (createSessionHistoryRow ident target reason now) = None"
    by (simp_all add: createSessionHistoryRow_def)
  from inv created bridge_step_db [of db b ev now] show ?thesis
    by blast
qed

theorem C2_audit_end_time_iff_not_connected_witness:
  "sessions (g_db (run scenario_attached
                     [ConnectionEvent 0 SshError 2000, ConnectionEvent 0 SocketClose 2001]))
     = [h1_row\<lparr>sh_endTime := Some 2001, sh_status := Disconnected\<rparr>]
   \<and> (sh_endTime (h1_row\<lparr>sh_endTime := Some 2001, sh_status := Disconnected\<rparr>) \<noteq> None)
       = (sh_status (h1_row\<lparr>sh_endTime := Some 2001, sh_status := Disconnected\<rparr>) \<noteq> Connected)
   \<and> sessions (g_db scenario_attached) = [h1_row]
   \<and> (sh_endTime h1_row \<noteq> None) = (sh_status h1_row \<noteq> Connected)"
proof -
  have inv: "audit_invariant (g_db scenario_attached)"
    by (simp add: audit_invariant_def scenario_attached_eq h1_row_def)
  have final: "run scenario_attached
                 [ConnectionEvent 0 SshError 2000, ConnectionEvent 0 SocketClose 2001]
                 = scenario_error_closed"
    by (simp add: run_def scenario_error_closed_def scenario_error_def)
  have rows: "sessions (g_db scenario_error_closed)
                = [h1_row\<lparr>sh_endTime := Some 2001, sh_status := Disconnected\<rparr>]"
    by (simp add: scenario_error_closed_eq)
  have start: "sessions (g_db scenario_attached) = [h1_row]"
    by (simp add: scenario_attached_eq)
  have first: "(sh_endTime h1_row \<noteq> None) = (sh_status h1_row \<noteq> Connected)"
    using C2_audit_end_time_iff_not_connected [OF inv, of "[]"] start
    by (simp add: run_def)
  from C2_audit_end_time_iff_not_connected [OF inv,
      of "[ConnectionEvent 0 SshError 2000, ConnectionEvent 0 SocketClose 2001]"] final rows start first
  show ?thesis
    by simp
qed







section \<open>Claims about the tools\<close>

text \<open>
  C4, as stated: for every hint, \<open>open_ssh_terminal\<close> resolves the hint as the
  specification words it. This fails, here with the lowering of the letters A to Z: the hint
  \<open>prod-a\<close> followed by a space selects the target \<open>prod-a\<close>, though no id or name
  equals or contains the hint as given; the empty hint is refused although every id
  contains it; with no target at all the tool throws its no-targets error, not the error
  that lists the targets.
\<close>

theorem C4_hint_as_given_counterexample:
  "open_ssh_terminal lower_ascii (Inr [prod_a]) session_for (js ''prod-a '') None
     = Inr (TerminalOpened (js ''prod (prod-a)'') (js ''http://localhost:9100/session/for-prod-a''))
   \<and> spec_resolve lower_ascii session_for (js ''prod-a '') None [prod_a]
     = Inl (HintNotMatched (js ''prod (prod-a)''))
   \<and> open_ssh_terminal lower_ascii (Inr [prod_a]) session_for [] None = Inl HintEmpty
   \<and> spec_resolve lower_ascii session_for [] None [prod_a]
     = Inr (TerminalOpened (js ''prod (prod-a)'') (js ''http://localhost:9100/session/for-prod-a''))
   \<and> open_ssh_terminal lower_ascii (Inr []) session_for (js ''prod'') None = Inl NoTargets
   \<and> spec_resolve lower_ascii session_for (js ''prod'') None [] = Inl (HintNotMatched [])"
proof -
  note evals = open_ssh_terminal_def spec_resolve_def spec_candidates_def spec_exact_def
    spec_contains_def candidates_filter isExact_def isPartial_def js_includes_sublist [symmetric]
    prefix_code lower_ascii_def trim_def isWhiteSpace_def display_label_def target_names_def
    safe_reason_def session_for_def prod_a_def js_def Let_def
  have padded: "open_ssh_terminal lower_ascii (Inr [prod_a]) session_for (js ''prod-a '') None
     = Inr (TerminalOpened (js ''prod (prod-a)'') (js ''http://localhost:9100/session/for-prod-a''))"
    by (simp add: evals)
  have padded_spec: "spec_resolve lower_ascii session_for (js ''prod-a '') None [prod_a]
     = Inl (HintNotMatched (js ''prod (prod-a)''))"
    by (simp add: evals)
  have blank: "open_ssh_terminal lower_ascii (Inr [prod_a]) session_for [] None = Inl HintEmpty"
    by (simp add: evals)
  have blank_spec: "spec_resolve lower_ascii session_for [] None [prod_a]
     = Inr (TerminalOpened (js ''prod (prod-a)'') (js ''http://localhost:9100/session/for-prod-a''))"
    by (simp add: evals)
  have none: "open_ssh_terminal lower_ascii (Inr []) session_for (js ''prod'') None = Inl NoTargets"
    by (simp add: evals)
  have none_spec: "spec_resolve lower_ascii session_for (js ''prod'') None []
                     = Inl (HintNotMatched [])"
    by (simp add: evals)
  from padded padded_spec blank blank_spec none none_spec show ?thesis
    by blast
qed

text \<open>
  C4, amended. The hint is trimmed first, of the white space and the line terminators of
  ECMAScript. A hint that is empty after trimming is refused with the empty-hint error
  before the targets are read, so also when reading them would fail. Otherwise a failure to
  read the targets is the result, and an empty target list is refused with the no-targets
  error. Otherwise the trimmed hint is resolved as the specification words it: compared
  without regard to case against the id and the display name of each target, the candidates
  are the exact matches if there is one and else the targets whose id or display name
  contains the hint; one candidate gives the session of that target, none fails with the
  list of all targets, several fail with the list of exactly the candidates. This holds for
  every lowering of strings that maps the empty string, and no other, to the empty string.
\<close>

theorem C4_open_ssh_terminal_resolves_trimmed_hint:
  assumes "\<And>s. (toLowerCase s = []) = (s = [])"
  shows "open_ssh_terminal toLowerCase fetchWebshellTargets createWebshellSession targetHint reason
     = (if trim targetHint = [] then Inl HintEmpty
        else case fetchWebshellTargets of
               Inl e \<Rightarrow> Inl e
             | Inr list \<Rightarrow>
                 if list = [] then Inl NoTargets
                 else spec_resolve toLowerCase createWebshellSession (trim targetHint) reason list)"
proof (cases "trim targetHint = []")
  case True
  then show ?thesis
    by (simp add: open_ssh_terminal_def)
next
  case hint: False
  show ?thesis
  proof (cases fetchWebshellTargets)
    case (Inl e)
    with hint show ?thesis
      by (simp add: open_ssh_terminal_def)
  next
    case (Inr list)
    show ?thesis
    proof (cases "list = []")
      case True
      with hint Inr show ?thesis
        by (simp add: open_ssh_terminal_def)
    next
      case False
      with hint Inr open_ssh_terminal_resolves [OF assms hint False] show ?thesis
        by simp
    qed
  qed
qed

theorem C4_open_ssh_terminal_resolves_trimmed_hint_witness:
  "open_ssh_terminal lower_ascii (Inr [prod_a, prod_b]) session_for (js ''PROD '') None
     = Inr (TerminalOpened (js ''prod (prod-a)'') (js ''http://localhost:9100/session/for-prod-a''))
   \<and> open_ssh_terminal lower_ascii (Inr [prod_a, prod_b]) session_for (js ''prod-b'' @ [0xA0]) None
     = Inr (TerminalOpened (js ''prod-b'') (js ''http://localhost:9100/session/for-prod-b''))
   \<and> open_ssh_terminal lower_ascii (Inr [prod_a, prod_b]) session_for (js ''rod'') None
     = Inl (HintAmbiguous (js ''prod (prod-a), prod-b''))
   \<and> open_ssh_terminal lower_ascii (Inr [prod_a]) session_for (js ''stage'') None
     = Inl (HintNotMatched (js ''prod (prod-a)''))
   \<and> open_ssh_terminal lower_ascii (Inl (GatewayError (js ''down''))) session_for (js ''  '') None
     = Inl HintEmpty
   \<and> open_ssh_terminal lower_ascii (Inl (GatewayError (js ''down''))) session_for (js ''prod'') None
     = Inl (GatewayError (js ''down''))
   \<and> open_ssh_terminal lower_ascii (Inr []) session_for (js ''prod'') None = Inl NoTargets"
proof -
  note evals = spec_resolve_def spec_candidates_def spec_exact_def spec_contains_def
    js_includes_sublist [symmetric] prefix_code lower_ascii_def display_label_def
    target_names_def safe_reason_def session_for_def prod_a_def prod_b_def js_def
  have t1: "trim (js ''PROD '') = js ''PROD''" and t2: "trim (js ''prod-b'' @ [0xA0]) = js ''prod-b''"
    and t3: "trim (js ''rod'') = js ''rod''" and t4: "trim (js ''stage'') = js ''stage''"
    and t5: "trim (js ''  '') = []" and t6: "trim (js ''prod'') = js ''prod''"
    by (simp_all add: trim_def isWhiteSpace_def js_def)
  have n: "js ''PROD'' \<noteq> []" "js ''prod-b'' \<noteq> []" "js ''rod'' \<noteq> []" "js ''stage'' \<noteq> []"
    "js ''prod'' \<noteq> []" "[prod_a, prod_b] \<noteq> []" "[prod_a] \<noteq> []"
    by (simp_all add: js_def)
  have s1: "spec_resolve lower_ascii session_for (js ''PROD'') None [prod_a, prod_b]
              = Inr (TerminalOpened (js ''prod (prod-a)'')
                       (js ''http://localhost:9100/session/for-prod-a''))"
    by (simp add: evals)
  have s2: "spec_resolve lower_ascii session_for (js ''prod-b'') None [prod_a, prod_b]
              = Inr (TerminalOpened (js ''prod-b'') (js ''http://localhost:9100/session/for-prod-b''))"
    by (simp add: evals)
  have s3: "spec_resolve lower_ascii session_for (js ''rod'') None [prod_a, prod_b]
              = Inl (HintAmbiguous (js ''prod (prod-a), prod-b''))"
    by (simp add: evals)
  have s4: "spec_resolve lower_ascii session_for (js ''stage'') None [prod_a]
              = Inl (HintNotMatched (js ''prod (prod-a)''))"
    by (simp add: evals)
  have r1: "open_ssh_terminal lower_ascii (Inr [prod_a, prod_b]) session_for (js ''PROD '') None
              = Inr (TerminalOpened (js ''prod (prod-a)'')
                       (js ''http://localhost:9100/session/for-prod-a''))"
    using C4_open_ssh_terminal_resolves_trimmed_hint
            [of lower_ascii "Inr [prod_a, prod_b]" session_for "js ''PROD ''" None,
             OF lower_ascii_empty]
    by (simp add: t1 n s1)
  have r2: "open_ssh_terminal lower_ascii (Inr [prod_a, prod_b]) session_for
              (js ''prod-b'' @ [0xA0]) None
              = Inr (TerminalOpened (js ''prod-b'') (js ''http://localhost:9100/session/for-prod-b''))"
    using C4_open_ssh_terminal_resolves_trimmed_hint
            [of lower_ascii "Inr [prod_a, prod_b]" session_for "js ''prod-b'' @ [0xA0]" None,
             OF lower_ascii_empty]
    by (simp add: t2 n s2)
  have r3: "open_ssh_terminal lower_ascii (Inr [prod_a, prod_b]) session_for (js ''rod'') None
              = Inl (HintAmbiguous (js ''prod (prod-a), prod-b''))"
    using C4_open_ssh_terminal_resolves_trimmed_hint
            [of lower_ascii "Inr [prod_a, prod_b]" session_for "js ''rod''" None,
             OF lower_ascii_empty]
    by (simp add: t3 n s3)
  have r4: "open_ssh_terminal lower_ascii (Inr [prod_a]) session_for (js ''stage'') None
              = Inl (HintNotMatched (js ''prod (prod-a)''))"
    using C4_open_ssh_terminal_resolves_trimmed_hint
            [of lower_ascii "Inr [prod_a]" session_for "js ''stage''" None,
             OF lower_ascii_empty]
    by (simp add: t4 n s4)
  have r5: "open_ssh_terminal lower_ascii (Inl (GatewayError (js ''down''))) session_for
              (js ''  '') None = Inl HintEmpty"
    using C4_open_ssh_terminal_resolves_trimmed_hint
            [of lower_ascii "Inl (GatewayError (js ''down''))" session_for "js ''  ''" None,
             OF lower_ascii_empty]
    by (simp add: t5)
  have r6: "open_ssh_terminal lower_ascii (Inl (GatewayError (js ''down''))) session_for
              (js ''prod'') None = Inl (GatewayError (js ''down''))"
    using C4_open_ssh_terminal_resolves_trimmed_hint
            [of lower_ascii "Inl (GatewayError (js ''down''))" session_for "js ''prod''" None,
             OF lower_ascii_empty]
    by (simp add: t6 n)
  have r7: "open_ssh_terminal lower_ascii (Inr []) session_for (js ''prod'') None = Inl NoTargets"
    using C4_open_ssh_terminal_resolves_trimmed_hint
            [of lower_ascii "Inr []" session_for "js ''prod''" None, OF lower_ascii_empty]
    by (simp add: t6 n)
  from r1 r2 r3 r4 r5 r6 r7 show ?thesis
    by blast
qed

text \<open>
  C10, as stated: with an explicit non-empty \<open>targetId\<close>, resolution succeeds exactly
  when the id or the display name of some target equals the trimmed input. This fails for a
  \<open>targetId\<close> of one space: its trimmed form is empty and equals no id and no name, yet
  with a single target the tool resolves to that target, as it does when no id is given.
\<close>

theorem C10_blank_target_id_counterexample:
  "resolvedTargetId [prod_a] (Some (js '' '')) = Inr (js ''prod-a'')
   \<and> js '' '' \<noteq> []
   \<and> trim (js '' '') = []
   \<and> wt_id prod_a = js ''prod-a''
   \<and> wt_name prod_a = Some (js ''prod'')
   \<and> js ''prod-a'' \<noteq> [] \<and> js ''prod'' \<noteq> []"
proof -
  have blank: "trim (js '' '') = []"
    by (simp add: trim_def isWhiteSpace_def js_def)
  then have "resolvedTargetId [prod_a] (Some (js '' '')) = Inr (js ''prod-a'')"
    by (simp add: resolvedTargetId_def trimmed_field_def prod_a_def)
  with blank show ?thesis
    by (simp add: prod_a_def js_def)
qed

text \<open>
  C10, amended. With a \<open>targetId\<close> that is not empty after trimming, resolution succeeds
  exactly when some target has the trimmed input as its id or as its display name, compared
  for equality (no folding of case, no substring); it then yields the id of such a target.
  When no target matches, the tool fails with the error that names the trimmed input and
  lists all targets. A \<open>targetId\<close> that is empty after trimming is treated as absent:
  the resolution and the tool give what they give without a \<open>targetId\<close>.
\<close>

theorem C10_explicit_target_id_matches_exactly:
  "(trim targetId \<noteq> [] \<longrightarrow>
      ((\<exists>rid. resolvedTargetId ts (Some targetId) = Inr rid)
         = (\<exists>t \<in> set ts. wt_id t = trim targetId \<or> wt_name t = Some (trim targetId)))
    \<and> (\<forall>rid. resolvedTargetId ts (Some targetId) = Inr rid \<longrightarrow>
          (\<exists>t \<in> set ts. wt_id t = rid
             \<and> (wt_id t = trim targetId \<or> wt_name t = Some (trim targetId))))
    \<and> ((\<forall>t \<in> set ts. wt_id t \<noteq> trim targetId \<and> wt_name t \<noteq> Some (trim targetId)) \<longrightarrow>
          resolvedTargetId ts (Some targetId)
            = Inl (TargetNotFound (trim targetId) (target_names ts))
        \<and> create_ssh_web_terminal (Inr ts) createWebshellSession (Some targetId) reason
            = Inl (TargetNotFound (trim targetId) (target_names ts))))
   \<and> (trim targetId = [] \<longrightarrow>
        resolvedTargetId ts (Some targetId) = resolvedTargetId ts None
      \<and> create_ssh_web_terminal fetchWebshellTargets createWebshellSession (Some targetId) reason
          = create_ssh_web_terminal fetchWebshellTargets createWebshellSession None reason)"
proof (cases "trim targetId = []")
  case True
  then have same: "resolvedTargetId available (Some targetId) = resolvedTargetId available None"
    for available
    by (simp add: resolvedTargetId_def trimmed_field_def)
  have "create_ssh_web_terminal fetchWebshellTargets createWebshellSession (Some targetId) reason
          = create_ssh_web_terminal fetchWebshellTargets createWebshellSession None reason"
    by (cases fetchWebshellTargets) (simp_all add: create_ssh_web_terminal_def same)
  with True same show ?thesis
    by simp
next
  case filled: False
  show ?thesis
  proof (cases "List.find (\<lambda>t. wt_id t = trim targetId \<or> wt_name t = Some (trim targetId)) ts")
    case None
    then have res: "resolvedTargetId ts (Some targetId)
                      = Inl (TargetNotFound (trim targetId) (target_names ts))"
      using filled by (simp add: resolvedTargetId_def trimmed_field_def Let_def)
    have tool: "create_ssh_web_terminal (Inr ts) createWebshellSession (Some targetId) reason
                  = Inl (TargetNotFound (trim targetId) (target_names ts))"
      by (simp add: create_ssh_web_terminal_def res)
    from None have no: "\<forall>t \<in> set ts. wt_id t \<noteq> trim targetId \<and> wt_name t \<noteq> Some (trim targetId)"
      by (simp add: find_None_equal)
    from res tool no filled show ?thesis
      by auto
  next
    case (Some found)
    then have res: "resolvedTargetId ts (Some targetId) = Inr (wt_id found)"
      using filled by (simp add: resolvedTargetId_def trimmed_field_def Let_def)
    from Some have mem: "found \<in> set ts"
      and eq: "wt_id found = trim targetId \<or> wt_name found = Some (trim targetId)"
      by (auto simp: find_Some_iff)
    from res mem eq filled show ?thesis
      by auto
  qed
qed

theorem C10_explicit_target_id_matches_exactly_witness:
  "resolvedTargetId [prod_a, prod_b] (Some (js ''PROD-A''))
       = Inl (TargetNotFound (js ''PROD-A'') (js ''prod (prod-a), prod-b''))
   \<and> resolvedTargetId [prod_a, prod_b] (Some (js ''rod''))
       = Inl (TargetNotFound (js ''rod'') (js ''prod (prod-a), prod-b''))
   \<and> (\<exists>rid. resolvedTargetId [prod_a, prod_b] (Some (js '' prod '')) = Inr rid)
   \<and> resolvedTargetId [prod_a, prod_b] (Some (js ''  ''))
       = Inl (TargetIdRequired (js ''prod (prod-a), prod-b''))
   \<and> create_ssh_web_terminal (Inr [prod_b]) session_for (Some (js ''  '')) None
       = Inr (TerminalCreated (js ''http://localhost:9100/session/for-prod-b''))"
proof -
  have t1: "trim (js '' prod '') = js ''prod''" and t3: "trim (js ''PROD-A'') = js ''PROD-A''"
    and t4: "trim (js ''rod'') = js ''rod''" and t5: "trim (js ''  '') = []"
    by (simp_all add: trim_def isWhiteSpace_def js_def)
  have n1: "trim (js '' prod '') \<noteq> []" and n3: "trim (js ''PROD-A'') \<noteq> []"
    and n4: "trim (js ''rod'') \<noteq> []"
    by (simp_all add: t1 t3 t4) (simp_all add: js_def)
  have names: "target_names [prod_a, prod_b] = js ''prod (prod-a), prod-b''"
    by (simp add: target_names_def display_label_def prod_a_def prod_b_def js_def)
  have yes1: "\<exists>t \<in> set [prod_a, prod_b]. wt_id t = js ''prod'' \<or> wt_name t = Some (js ''prod'')"
    by (simp add: prod_a_def)
  have no3: "\<forall>t \<in> set [prod_a, prod_b].
               wt_id t \<noteq> js ''PROD-A'' \<and> wt_name t \<noteq> Some (js ''PROD-A'')"
    and no4: "\<forall>t \<in> set [prod_a, prod_b]. wt_id t \<noteq> js ''rod'' \<and> wt_name t \<noteq> Some (js ''rod'')"
    by (simp_all add: prod_a_def prod_b_def js_def)
  have absent: "resolvedTargetId [prod_a, prod_b] None
                  = Inl (TargetIdRequired (js ''prod (prod-a), prod-b''))"
    by (simp add: resolvedTargetId_def trimmed_field_def names)
  have absent_tool: "create_ssh_web_terminal (Inr [prod_b]) session_for None None
                       = Inr (TerminalCreated (js ''http://localhost:9100/session/for-prod-b''))"
    by (simp add: create_ssh_web_terminal_def resolvedTargetId_def trimmed_field_def
        session_for_def safe_reason_def prod_b_def js_def)
  have r3: "resolvedTargetId [prod_a, prod_b] (Some (js ''PROD-A''))
              = Inl (TargetNotFound (js ''PROD-A'') (js ''prod (prod-a), prod-b''))"
    using C10_explicit_target_id_matches_exactly
            [of "js ''PROD-A''" "[prod_a, prod_b]", THEN conjunct1, rule_format, OF n3,
             unfolded t3 names] no3
    by blast
  have r4: "resolvedTargetId [prod_a, prod_b] (Some (js ''rod''))
              = Inl (TargetNotFound (js ''rod'') (js ''prod (prod-a), prod-b''))"
    using C10_explicit_target_id_matches_exactly
            [of "js ''rod''" "[prod_a, prod_b]", THEN conjunct1, rule_format, OF n4,
             unfolded t4 names] no4
    by blast
  have r1: "\<exists>rid. resolvedTargetId [prod_a, prod_b] (Some (js '' prod '')) = Inr rid"
    using C10_explicit_target_id_matches_exactly
            [of "js '' prod ''" "[prod_a, prod_b]", THEN conjunct1, rule_format, OF n1,
             unfolded t1] yes1
    by blast
  have r5: "resolvedTargetId [prod_a, prod_b] (Some (js ''  ''))
              = Inl (TargetIdRequired (js ''prod (prod-a), prod-b''))"
    using C10_explicit_target_id_matches_exactly
            [of "js ''  ''" "[prod_a, prod_b]", THEN conjunct2, rule_format, OF t5]
    by (simp add: absent)
  have r6: "create_ssh_web_terminal (Inr [prod_b]) session_for (Some (js ''  '')) None
              = Inr (TerminalCreated (js ''http://localhost:9100/session/for-prod-b''))"
    using C10_explicit_target_id_matches_exactly
            [of "js ''  ''" "[prod_b]" session_for None "Inr [prod_b]",
             THEN conjunct2, rule_format, OF t5]
    by (simp add: absent_tool)
  from r3 r4 r1 r5 r6 show ?thesis
    by blast
qed

end
